theory Spec2Isabelle
  imports Complex_Main "HOL-Library.Char_ord" "HOL-Library.List_Lexorder"
begin

section \<open>The data frame of the notebook\<close>

text \<open>
  The notebook \<^verbatim>\<open>FacialPain.ipynb\<close> works on one pandas data frame \<^verbatim>\<open>df\<close>, read
  from a CSV file. A row is a record of the raw columns that the analysis reads; a cell
  that pandas holds as NaN is \<open>None\<close>. The BPI-Facial questionnaire columns are addressed
  by their column names, as the notebook does with its lists of names. A frame is the
  list of its rows in order, each with its index label (\<^verbatim>\<open>read_csv\<close> numbers them
  from 0; \<^verbatim>\<open>drop\<close> removes rows by label).
\<close>

record row =
  PAT_ID :: string
  D_GENDER_DESC :: "string option"
  D_RACE_DESC :: "string option"
  D_ETHNICITY_DESC :: "string option"
  D_FINAN_CLASS_DESC :: "string option"
  D_ICD_DESC :: "string option"
  IP_R_NEU_CSSRS_SUICIDAL_THOUGHTS :: "string option"
  IP_R_SW_CSSRS_SUICIDAL_BEHAVIOR :: "string option"
  age :: "real option"
  amb :: "string \<Rightarrow> real option"

type_synonym 'r frame = "(nat \<times> 'r) list"

text \<open>The exceptions that the modelled cells can raise.\<close>

datatype error = ValueError string | IndexError string | ZeroDivisionError

section \<open>1.1 Data cleaning\<close>

text \<open>
  \<^verbatim>\<open>ICD_map = {'ATYPICAL FACIAL PAIN': 'AFP', ...}\<close>: the dictionary, in the order of
  the source. No key occurs twice, so the first match of \<open>map_of\<close> is the entry.
\<close>

definition ICD_table :: "(string \<times> string) list" where
  "ICD_table =
    [(''ATYPICAL FACIAL PAIN'', ''AFP''),
     (''ATYPICAL FACE PAIN'', ''AFP''),
     (''CLONIC HEMIFACIAL SPASM'', ''HFS''),
     (''MULTIPLE SCLEROSIS'', ''MS''),
     (''TRIGEMINAL NEURALGIA'', ''TN''),
     (''CHRONIC PAIN DUE TO TRAUMA'', ''Posttraumatic''),
     (''POSTHERPETIC TRIGEMINAL NEURALGIA'', ''PHTN''),
     (''OTH TRIGEMINAL AUTONOM CEPHALGIAS INTRACTABLE '', ''Other''),
     (''OTH TRIGEMINAL AUTONOM CEPHALGIAS NOT INTRACT'', ''Other''),
     (''OTHER TRIGEMINAL AUTONOM CEPHALGIAS '', ''Other''),
     (''OTHER DISORDERS OF TRIGEMINAL NERVE'', ''Other''),
     (''OTHER SPECIFIED TRIGEMINAL NERVE DISORDERS'', ''Other''),
     (''OTHER FACIAL NERVE DISORDERS'', ''Other'')]"

definition ICD_map :: "string \<Rightarrow> string option" where
  "ICD_map = map_of ICD_table"

text \<open>
  \<^verbatim>\<open>Series.map(dict)\<close>: a value that is a key of the dictionary becomes the entry, every
  other value (NaN included) becomes NaN. It raises nothing.
\<close>

definition series_map :: "('a \<Rightarrow> 'b option) \<Rightarrow> 'a option \<Rightarrow> 'b option" where
  "series_map m x = (case x of None \<Rightarrow> None | Some k \<Rightarrow> m k)"

text \<open>\<^verbatim>\<open>df['ICD_Clean'] = df['D_ICD_DESC'].map(ICD_map)\<close>\<close>

definition ICD_Clean :: "row \<Rightarrow> string option" where
  "ICD_Clean r = series_map ICD_map (D_ICD_DESC r)"

text \<open>\<^verbatim>\<open>df['ICD_TN'] = df['ICD_Clean'].apply(lambda x: 1 if x == 'TN' else 0)\<close>\<close>

definition ICD_TN :: "row \<Rightarrow> nat" where
  "ICD_TN r = (if ICD_Clean r = Some ''TN'' then 1 else 0)"

text \<open>\<^verbatim>\<open>CSRSS_map = {'No': 0, 'Yes': 1}\<close>; the mapped column is numeric, with NaN.\<close>

definition CSRSS_map :: "string \<Rightarrow> real option" where
  "CSRSS_map = map_of [(''No'', 0), (''Yes'', 1)]"

definition CSRSS_Thoughts :: "row \<Rightarrow> real option" where
  "CSRSS_Thoughts r = series_map CSRSS_map (IP_R_NEU_CSSRS_SUICIDAL_THOUGHTS r)"

definition CSRSS_Behaviors :: "row \<Rightarrow> real option" where
  "CSRSS_Behaviors r = series_map CSRSS_map (IP_R_SW_CSSRS_SUICIDAL_BEHAVIOR r)"

text \<open>
  \<^verbatim>\<open>DataFrame.sum(axis=1, skipna=True)\<close> over the cells of one row: NaN counts as
  zero, and a row of NaN only sums to 0.
\<close>

definition sum_skipna :: "real option list \<Rightarrow> real" where
  "sum_skipna cells = sum_list (map (\<lambda>c. case c of None \<Rightarrow> 0 | Some v \<Rightarrow> v) cells)"

text \<open>
  \<^verbatim>\<open>df['CSRSS_Either'] = df[['CSRSS_Thoughts', 'CSRSS_Behaviors']].sum(axis=1, skipna=True)\<close>
  \<^verbatim>\<open>df['CSRSS_Either'] = df['CSRSS_Either'].apply(lambda x: 1 if x > 0 else 0)\<close>
\<close>

definition CSRSS_Either :: "row \<Rightarrow> nat" where
  "CSRSS_Either r =
    (let x = sum_skipna [CSRSS_Thoughts r, CSRSS_Behaviors r] in if x > 0 then 1 else 0)"

section \<open>2.3 BPI-Facial columns and the rows with missing answers\<close>

definition amb_painintensity :: "string list" where
  "amb_painintensity =
    [''CIRCLE_THE_ONE_NUMBER_THAT_DESCRIBES_YOUR_PAIN_RIGHT_NOW'',
     ''AMB_NSR_R_PAIN_AT_ITS_WORST_IN_LAST_WEEK'',
     ''AMB_NSR_R_PAIN_AT_ITS_LEAST_IN_LAST_WEEK'',
     ''AMB_NSR_R_PAIN_AT_ITS_AVERAGE_IN_LAST_WEEK'']"

definition amb_interference :: "string list" where
  "amb_interference =
    [''AMB_NSR_R_GENERAL_ACTIVITY'', ''AMB_NSR_R_MOOD'', ''AMB_NSR_R_NORMAL_WORK'',
     ''AMB_NSR_R_RELATIONS_WITH_OTHER_PEOPLE'', ''AMB_NSR_R_SLEEP'',
     ''AMB_NSR_R_ENJOYMENT_OF_LIFE'', ''ABM_NSR_R_WALKING_ABILITY'']"

definition amb_specific :: "string list" where
  "amb_specific =
    [''AMB_NSR_R_EATING_A_MEAL'', ''AMB_NSR_R_TOUCHING_YOUR_FACE'',
     ''AMB_NSR_R_BRUSHING_OR_FLOSSING_YOUR_TEETH'', ''AMB_NSR_R_SMILING_OR_LAUGHING'',
     ''AMB_NSR_R_TALKING'', ''AMB_NSR_R_OPENING_YOUR_MOUTH_WIDELY'',
     ''AMB_NSR_R_EATING_HARD_FOODS_LIKE_APPLES'']"

definition amb_any :: "string list" where
  "amb_any = amb_painintensity @ amb_interference @ amb_specific
     @ [''AMB_NSR_R_BRIEF_PAIN_INVENTORY_FACIAL_SCORE'']"

text \<open>\<^verbatim>\<open>df[amb_any]\<close>: the frame of the questionnaire columns, same index.\<close>

definition select_amb :: "row frame \<Rightarrow> (string \<Rightarrow> real option) frame" where
  "select_amb df = map (\<lambda>(i, r). (i, amb r)) df"

text \<open>
  \<^verbatim>\<open>fr[fr.isnull().any(axis=1)].index\<close> over the columns \<open>cols\<close>: the labels of the
  rows with a NaN in one of the columns.
\<close>

definition isnull_any :: "string list \<Rightarrow> (string \<Rightarrow> real option) \<Rightarrow> bool" where
  "isnull_any cols v = list_ex (\<lambda>c. v c = None) cols"

definition flag_missing :: "string list \<Rightarrow> (string \<Rightarrow> real option) frame \<Rightarrow> nat list" where
  "flag_missing cols fr = map fst (filter (\<lambda>(i, v). isnull_any cols v) fr)"

text \<open>
  \<^verbatim>\<open>fr.drop(labels)\<close>: every row whose label is among \<open>labels\<close> goes, the others stay
  in order. (pandas raises KeyError for a label that the index does not have; the notebook
  only passes labels taken from the same index.)
\<close>

definition drop_labels :: "nat list \<Rightarrow> 'r frame \<Rightarrow> 'r frame" where
  "drop_labels labels fr = filter (\<lambda>(i, r). i \<notin> set labels) fr"

text \<open>
  The two steps together, for a list of required columns:
  \<^verbatim>\<open>missing = fr[fr.isnull().any(axis=1)].index; fr = fr.drop(missing)\<close>
\<close>

definition cohort_filter :: "string list \<Rightarrow> (string \<Rightarrow> real option) frame
    \<Rightarrow> (string \<Rightarrow> real option) frame" where
  "cohort_filter cols fr = drop_labels (flag_missing cols fr) fr"

text \<open>\<^verbatim>\<open>amb_df_missing = amb_df[amb_df.isnull().any(axis=1)].index\<close>\<close>

definition amb_df_missing :: "row frame \<Rightarrow> nat list" where
  "amb_df_missing df = flag_missing amb_any (select_amb df)"

text \<open>\<^verbatim>\<open>amb_df = amb_df.drop(amb_df_missing)\<close>\<close>

definition amb_df :: "row frame \<Rightarrow> (string \<Rightarrow> real option) frame" where
  "amb_df df = cohort_filter amb_any (select_amb df)"

text \<open>\<^verbatim>\<open>ml_df = df.copy(); ml_df = ml_df.drop(amb_df_missing)\<close>\<close>

definition ml_df :: "row frame \<Rightarrow> row frame" where
  "ml_df df = drop_labels (amb_df_missing df) df"

text \<open>
  \<^verbatim>\<open>DataFrame.mean(axis=1, skipna=True)\<close> over the cells of one row: the mean of the
  cells that are not NaN, and NaN when there is none.
\<close>

definition mean_skipna :: "real option list \<Rightarrow> real option" where
  "mean_skipna cells =
    (let present = List.map_filter (\<lambda>c. c) cells
     in if present = [] then None else Some (sum_list present / real (length present)))"

definition domain_mean :: "string list \<Rightarrow> (string \<Rightarrow> real option) frame \<Rightarrow> real option frame" where
  "domain_mean cols fr = map (\<lambda>(i, v). (i, mean_skipna (map v cols))) fr"

text \<open>\<^verbatim>\<open>Series.dropna()\<close>\<close>

definition dropna :: "'a option frame \<Rightarrow> 'a frame" where
  "dropna s = List.map_filter (\<lambda>(i, x). map_option (Pair i) x) s"

text \<open>
  \<^verbatim>\<open>amb_painintensity_df = amb_df[amb_painintensity].copy()\<close>
  \<^verbatim>\<open>amb_painintensity_df = amb_painintensity_df.mean(axis = 1, skipna = True)\<close>
  and, in the next cell, \<^verbatim>\<open>amb_painintensity_df = amb_painintensity_df.dropna()\<close>;
  the same for the two interference domains.
\<close>

definition amb_painintensity_df :: "row frame \<Rightarrow> real frame" where
  "amb_painintensity_df df = dropna (domain_mean amb_painintensity (amb_df df))"

definition amb_interference_df :: "row frame \<Rightarrow> real frame" where
  "amb_interference_df df = dropna (domain_mean amb_interference (amb_df df))"

definition amb_specific_df :: "row frame \<Rightarrow> real frame" where
  "amb_specific_df df = dropna (domain_mean amb_specific (amb_df df))"

text \<open>\<^verbatim>\<open>is_sui = df.copy(); is_sui = is_sui.drop(amb_df_missing); is_sui = is_sui['CSRSS_Either'].values\<close>\<close>

definition is_sui :: "row frame \<Rightarrow> nat list" where
  "is_sui df = map (\<lambda>(i, r). CSRSS_Either r) (drop_labels (amb_df_missing df) df)"

definition is_tn :: "row frame \<Rightarrow> nat list" where
  "is_tn df = map (\<lambda>(i, r). ICD_TN r) (drop_labels (amb_df_missing df) df)"

text \<open>
  \<^verbatim>\<open>series[mask].values\<close> with a boolean array: the values at the positions where the
  mask is true; pandas raises IndexError when the lengths differ.
\<close>

definition bool_index :: "bool list \<Rightarrow> 'a frame \<Rightarrow> error + 'a list" where
  "bool_index msk s =
    (if length msk = length s then Inr (map (snd \<circ> snd) (filter fst (zip msk s)))
     else Inl (IndexError ''Boolean index has wrong length''))"

text \<open>\<^verbatim>\<open>painintensity_sui = amb_painintensity_df[is_sui == 1].values\<close> and its siblings.\<close>

definition painintensity_sui :: "row frame \<Rightarrow> error + real list" where
  "painintensity_sui df = bool_index (map (\<lambda>s. s = 1) (is_sui df)) (amb_painintensity_df df)"

definition painintensity_notsui :: "row frame \<Rightarrow> error + real list" where
  "painintensity_notsui df = bool_index (map (\<lambda>s. s = 0) (is_sui df)) (amb_painintensity_df df)"

definition interference_sui :: "row frame \<Rightarrow> error + real list" where
  "interference_sui df = bool_index (map (\<lambda>s. s = 1) (is_sui df)) (amb_interference_df df)"

definition interference_notsui :: "row frame \<Rightarrow> error + real list" where
  "interference_notsui df = bool_index (map (\<lambda>s. s = 0) (is_sui df)) (amb_interference_df df)"

definition specific_sui :: "row frame \<Rightarrow> error + real list" where
  "specific_sui df = bool_index (map (\<lambda>s. s = 1) (is_sui df)) (amb_specific_df df)"

definition specific_notsui :: "row frame \<Rightarrow> error + real list" where
  "specific_notsui df = bool_index (map (\<lambda>s. s = 0) (is_sui df)) (amb_specific_df df)"

section \<open>2.1 and 2.2 Demographics, C-SSRS responses and the chi-square tests\<close>

text \<open>\<^verbatim>\<open>df.shape[0]\<close>, \<^verbatim>\<open>len(df['PAT_ID'].unique())\<close>,
  \<^verbatim>\<open>len(df[df['D_GENDER_DESC'] == 'Female'])\<close>: all three read the frame \<^verbatim>\<open>df\<close>
  of the cell, which is the loaded frame.\<close>

definition n_entries :: "row frame \<Rightarrow> nat" where
  "n_entries df = length df"

definition n_patients :: "row frame \<Rightarrow> nat" where
  "n_patients df = length (remdups (map (\<lambda>(i, r). PAT_ID r) df))"

definition n_female :: "row frame \<Rightarrow> nat" where
  "n_female df = length (filter (\<lambda>(i, r). D_GENDER_DESC r = Some ''Female'') df)"

text \<open>
  \<^verbatim>\<open>print('# Females: %i (%.1f%%)' %(n_female, (n_female/n_patients)*100))\<close>: the
  proportion is taken over the unique patients, and Python raises ZeroDivisionError when
  there is none.
\<close>

definition female_proportion :: "row frame \<Rightarrow> error + real" where
  "female_proportion df =
    (if n_patients df = 0 then Inl ZeroDivisionError
     else Inr (real (n_female df) / real (n_patients df) * 100))"

text \<open>
  The frequency tables \<^verbatim>\<open>df[col].value_counts()\<close>, read as functions: the count of the
  rows with the value \<open>v\<close> in the column, which is the table's entry for \<open>v\<close> when \<open>v\<close>
  occurs in the frame.
\<close>

definition value_counts_entry :: "(row \<Rightarrow> string option) \<Rightarrow> row frame \<Rightarrow> string \<Rightarrow> nat" where
  "value_counts_entry col df v = length (filter (\<lambda>(i, r). col r = Some v) df)"

definition race_counts :: "row frame \<Rightarrow> string \<Rightarrow> nat" where
  "race_counts df = value_counts_entry D_RACE_DESC df"

definition ethnicity_counts :: "row frame \<Rightarrow> string \<Rightarrow> nat" where
  "ethnicity_counts df = value_counts_entry D_ETHNICITY_DESC df"

definition insurance_counts :: "row frame \<Rightarrow> string \<Rightarrow> nat" where
  "insurance_counts df = value_counts_entry D_FINAN_CLASS_DESC df"

definition dx_counts :: "row frame \<Rightarrow> string \<Rightarrow> nat" where
  "dx_counts df = value_counts_entry ICD_Clean df"

text \<open>
  \<^verbatim>\<open>df['CSRSS_Behaviors'].mean()*100\<close> and \<^verbatim>\<open>df['CSRSS_Thoughts'].mean()*100\<close>:
  the mean of a column skips NaN and is NaN for a column of NaN only.
\<close>

definition behaviors_proportion :: "row frame \<Rightarrow> real option" where
  "behaviors_proportion df =
    map_option (\<lambda>m. m * 100) (mean_skipna (map (\<lambda>(i, r). CSRSS_Behaviors r) df))"

definition thoughts_proportion :: "row frame \<Rightarrow> real option" where
  "thoughts_proportion df =
    map_option (\<lambda>m. m * 100) (mean_skipna (map (\<lambda>(i, r). CSRSS_Thoughts r) df))"

text \<open>\<^verbatim>\<open>df['CSRSS_Either'].mean()*100\<close> (NaN for a frame without rows).\<close>

definition either_proportion :: "row frame \<Rightarrow> real option" where
  "either_proportion df =
    (if df = [] then None
     else Some (sum_list (map (\<lambda>(i, r). real (CSRSS_Either r)) df) / real (length df) * 100))"

text \<open>
  \<^verbatim>\<open>SeriesGroupBy.value_counts()\<close> for one group: the values seen in the group with
  their counts, most frequent first (\<^verbatim>\<open>sort=True, ascending=False\<close>); values with the
  same count stay in ascending order of the value. A value that the group does not have
  gets no entry.
\<close>

definition group_value_counts :: "nat list \<Rightarrow> (nat \<times> nat) list" where
  "group_value_counts vs =
    sort_key (\<lambda>(v, c). - int c) (map (\<lambda>v. (v, count_list vs v)) (sort (remdups vs)))"

text \<open>
  \<^verbatim>\<open>df.groupby(key)[col].value_counts().values\<close>: the groups in ascending order of the
  key (rows with a NaN key belong to no group), each group's counts in the order above, as
  one flat array.
\<close>

definition groupby_value_counts :: "('k::linorder) option list \<Rightarrow> nat list \<Rightarrow> nat list" where
  "groupby_value_counts keys vals =
    concat (map (\<lambda>g. map snd (group_value_counts
                    (map snd (filter (\<lambda>(k, v). k = Some g) (zip keys vals)))))
             (sort (remdups (List.map_filter (\<lambda>k. k) keys))))"

text \<open>\<^verbatim>\<open>a.reshape(2, 2)\<close>: numpy raises ValueError unless the array has four elements.\<close>

definition reshape_2_2 :: "nat list \<Rightarrow> error + (nat \<times> nat) \<times> (nat \<times> nat)" where
  "reshape_2_2 xs =
    (case xs of
       [a, b, c, d] \<Rightarrow> Inr ((a, b), (c, d))
     | _ \<Rightarrow> Inl (ValueError ''cannot reshape array into shape (2,2)''))"

text \<open>
  \<^verbatim>\<open>csrss_counts_gender = df.groupby('D_GENDER_DESC')['CSRSS_Either'].value_counts().values\<close>
  \<^verbatim>\<open>csrss_counts_gender = csrss_counts_gender.reshape(2, 2)\<close>
\<close>

definition csrss_counts_gender :: "row frame \<Rightarrow> error + (nat \<times> nat) \<times> (nat \<times> nat)" where
  "csrss_counts_gender df =
    reshape_2_2 (groupby_value_counts (map (\<lambda>(i, r). D_GENDER_DESC r) df)
                                      (map (\<lambda>(i, r). CSRSS_Either r) df))"

definition csrss_counts_tn :: "row frame \<Rightarrow> error + (nat \<times> nat) \<times> (nat \<times> nat)" where
  "csrss_counts_tn df =
    reshape_2_2 (groupby_value_counts (map (\<lambda>(i, r). Some (ICD_TN r)) df)
                                      (map (\<lambda>(i, r). CSRSS_Either r) df))"

text \<open>
  \<^verbatim>\<open>scipy.stats.chi2_contingency\<close> on a 2 x 2 table of counts, with its default
  continuity correction: the expected frequencies from the margins, a ValueError when one
  of them is zero, each observed count moved towards its expected frequency by at most
  one half, then Pearson's statistic. The table has one degree of freedom. The statistic
  is kept exact; the p-value (the tail of the chi-square distribution at the statistic)
  is not modelled. A table of four zeros has NaN expected frequencies and a NaN
  statistic, \<open>None\<close> here.
\<close>

definition expected_freq :: "(nat \<times> nat) \<times> (nat \<times> nat) \<Rightarrow> (real \<times> real) \<times> (real \<times> real)" where
  "expected_freq t =
    (case t of ((a, b), (c, d)) \<Rightarrow>
      (let n = real (a + b + c + d)
       in ((real (a + b) * real (a + c) / n, real (a + b) * real (b + d) / n),
           (real (c + d) * real (a + c) / n, real (c + d) * real (b + d) / n))))"

definition yates_term :: "nat \<Rightarrow> real \<Rightarrow> real" where
  "yates_term ob ex =
    (let diff = ex - real ob;
         corrected = real ob + min (1 / 2) \<bar>diff\<bar> * sgn diff
     in (corrected - ex)\<^sup>2 / ex)"

definition chi2_contingency :: "(nat \<times> nat) \<times> (nat \<times> nat) \<Rightarrow> error + (real option \<times> nat)" where
  "chi2_contingency t =
    (case (t, expected_freq t) of (((a, b), (c, d)), ((ea, eb), (ec, ed))) \<Rightarrow>
      if a + b + c + d = 0 then Inr (None, 1)
      else if ea = 0 \<or> eb = 0 \<or> ec = 0 \<or> ed = 0
        then Inl (ValueError ''The internally computed table of expected frequencies has a zero element'')
      else Inr (Some (yates_term a ea + yates_term b eb + yates_term c ec + yates_term d ed), 1))"

text \<open>The chi-square cell for one grouping: counts, reshape, test.\<close>

definition chi2_gender :: "row frame \<Rightarrow> error + (real option \<times> nat)" where
  "chi2_gender df = (case csrss_counts_gender df of Inl e \<Rightarrow> Inl e | Inr t \<Rightarrow> chi2_contingency t)"

definition chi2_tn :: "row frame \<Rightarrow> error + (real option \<times> nat)" where
  "chi2_tn df = (case csrss_counts_tn df of Inl e \<Rightarrow> Inl e | Inr t \<Rightarrow> chi2_contingency t)"

text \<open>
  The contingency table in the words of the specification: cell \<open>(g, e)\<close> is the number
  of rows with group value \<open>g\<close> and either-flag \<open>e\<close>.
\<close>

definition contingency_cell :: "(row \<Rightarrow> 'k option) \<Rightarrow> row frame \<Rightarrow> 'k \<Rightarrow> nat \<Rightarrow> nat" where
  "contingency_cell key df g e =
    length (filter (\<lambda>(i, r). key r = Some g \<and> CSRSS_Either r = e) df)"

definition contingency_spec :: "(row \<Rightarrow> 'k option) \<Rightarrow> row frame \<Rightarrow> 'k \<Rightarrow> 'k
    \<Rightarrow> (nat \<times> nat) \<times> (nat \<times> nat)" where
  "contingency_spec key df g1 g2 =
    ((contingency_cell key df g1 0, contingency_cell key df g1 1),
     (contingency_cell key df g2 0, contingency_cell key df g2 1))"

section \<open>2.3 Welch's t-test and the reported degrees of freedom\<close>

text \<open>\<^verbatim>\<open>np.mean\<close> and the variance with \<^verbatim>\<open>ddof=1\<close>; NaN (\<open>None\<close>) where numpy
  divides zero by zero.\<close>

definition mean_of :: "real list \<Rightarrow> real option" where
  "mean_of xs = (if xs = [] then None else Some (sum_list xs / real (length xs)))"

definition var_ddof1 :: "real list \<Rightarrow> real option" where
  "var_ddof1 xs =
    (case mean_of xs of
       None \<Rightarrow> None
     | Some m \<Rightarrow> if length xs < 2 then None
                else Some (sum_list (map (\<lambda>x. (x - m)\<^sup>2) xs) / real (length xs - 1)))"

text \<open>
  A double that a SciPy result can hold: NaN, an infinity, or a finite number (kept as an
  exact real).
\<close>

datatype float_result = NaN | NegInf | PosInf | Finite real

text \<open>
  \<^verbatim>\<open>stats.ttest_ind(a, b, equal_var=False)\<close>. With \<open>vn1 = v1/n1\<close> and
  \<open>vn2 = v2/n2\<close>, the degrees of freedom that SciPy takes the p-value with are
  \<open>(vn1 + vn2)\<^sup>2 / (vn1\<^sup>2/(n1-1) + vn2\<^sup>2/(n2-1))\<close>, and where that is NaN (a variance
  that is NaN, or two variances of zero) SciPy replaces it by 1
  (\<^verbatim>\<open>df = np.where(np.isnan(df), 1, df)\<close>).
\<close>

definition welch_dof :: "real list \<Rightarrow> real list \<Rightarrow> real" where
  "welch_dof a b =
    (case (var_ddof1 a, var_ddof1 b) of
       (Some v1, Some v2) \<Rightarrow>
         (let vn1 = v1 / real (length a); vn2 = v2 / real (length b)
          in if vn1 + vn2 = 0 then 1
             else (vn1 + vn2)\<^sup>2 / (vn1\<^sup>2 / real (length a - 1) + vn2\<^sup>2 / real (length b - 1)))
     | _ \<Rightarrow> 1)"

text \<open>
  The statistic is the difference of the means over \<open>sqrt (vn1 + vn2)\<close>, computed
  without an exception: NaN when a mean or a variance is NaN (a sample with fewer than two
  observations) or when zero is divided by zero, an infinity when a difference other than
  zero is divided by zero (two constant samples). The p-value is not modelled.
\<close>

definition welch_t :: "real list \<Rightarrow> real list \<Rightarrow> float_result" where
  "welch_t a b =
    (case (mean_of a, mean_of b, var_ddof1 a, var_ddof1 b) of
       (Some m1, Some m2, Some v1, Some v2) \<Rightarrow>
         (let vn1 = v1 / real (length a); vn2 = v2 / real (length b)
          in if vn1 + vn2 = 0
             then (if m1 - m2 = 0 then NaN else if 0 < m1 - m2 then PosInf else NegInf)
             else Finite ((m1 - m2) / sqrt (vn1 + vn2)))
     | _ \<Rightarrow> NaN)"

text \<open>
  The number printed in \<^verbatim>\<open>t(%.0f)\<close>:
  \<^verbatim>\<open>len(painintensity_sui) + len(painintensity_notsui) - 2\<close>
\<close>

definition reported_dof :: "real list \<Rightarrow> real list \<Rightarrow> int" where
  "reported_dof a b = int (length a) + int (length b) - 2"

text \<open>The degrees of freedom printed for the pain-intensity comparison of a frame.\<close>

definition painintensity_reported_dof :: "row frame \<Rightarrow> error + int" where
  "painintensity_reported_dof df =
    (case painintensity_sui df of Inl e \<Rightarrow> Inl e
     | Inr a \<Rightarrow> (case painintensity_notsui df of Inl e \<Rightarrow> Inl e
                 | Inr b \<Rightarrow> Inr (reported_dof a b)))"

definition painintensity_welch_dof :: "row frame \<Rightarrow> error + real" where
  "painintensity_welch_dof df =
    (case painintensity_sui df of Inl e \<Rightarrow> Inl e
     | Inr a \<Rightarrow> (case painintensity_notsui df of Inl e \<Rightarrow> Inl e
                 | Inr b \<Rightarrow> Inr (welch_dof a b)))"

section \<open>3. Machine-learning frame\<close>

text \<open>
  \<^verbatim>\<open>ml_df['Pain_Intensity'] = ml_df[amb_painintensity].sum(axis=1, skipna=True)\<close>
  and its two siblings.
\<close>

definition Pain_Intensity :: "row \<Rightarrow> real" where
  "Pain_Intensity r = sum_skipna (map (amb r) amb_painintensity)"

definition Interference_General :: "row \<Rightarrow> real" where
  "Interference_General r = sum_skipna (map (amb r) amb_interference)"

definition Interference_Face :: "row \<Rightarrow> real" where
  "Interference_Face r = sum_skipna (map (amb r) amb_specific)"

text \<open>
  \<^verbatim>\<open>continuous_features = ['AGE', 'Pain_Intensity', 'Interference_General', 'Interference_Face']\<close>
  read from a row of \<^verbatim>\<open>ml_df\<close> (\<^verbatim>\<open>df['AGE'] = df['age']\<close>).
\<close>

definition continuous_features :: "row \<Rightarrow> real option list" where
  "continuous_features r =
    [age r, Some (Pain_Intensity r), Some (Interference_General r), Some (Interference_Face r)]"

section \<open>3.1 Logistic regression classification\<close>

text \<open>
  The fitted pipeline, as far as prediction reads it: the fitted column transformer, a
  function from a row to its feature vector, and the coefficients and the intercept of
  the fitted logistic regression. The fit itself (the split, the oversampling, the
  solver) is not modelled; what is proved about predictions holds for every fitted
  pipeline. The oversampling step does nothing at prediction time.
\<close>

record fitted_pipeline =
  preprocess :: "row \<Rightarrow> real list"
  coef :: "real list"
  intercept :: real

definition decision_function :: "fitted_pipeline \<Rightarrow> row \<Rightarrow> real" where
  "decision_function m r = sum_list (map2 (*) (preprocess m r) (coef m)) + intercept m"

definition expit :: "real \<Rightarrow> real" where
  "expit z = 1 / (1 + exp (- z))"

text \<open>
  \<^verbatim>\<open>y_proba = pipeline.predict_proba(X_test)[:, 1]\<close>: for two classes and the
  liblinear solver, the logistic function of the decision function.
\<close>

definition y_proba :: "fitted_pipeline \<Rightarrow> row frame \<Rightarrow> real list" where
  "y_proba m X_test = map (\<lambda>(i, r). expit (decision_function m r)) X_test"

text \<open>
  \<^verbatim>\<open>y_pred_default = pipeline.predict(X_test)\<close>: class 1 where the decision function
  is positive, class 0 elsewhere.
\<close>

definition y_pred_default :: "fitted_pipeline \<Rightarrow> row frame \<Rightarrow> nat list" where
  "y_pred_default m X_test =
    map (\<lambda>(i, r). if decision_function m r > 0 then 1 else 0) X_test"

text \<open>\<^verbatim>\<open>threshold = 0.3\<close>; \<^verbatim>\<open>y_pred_alt = (y_proba >= threshold).astype(int)\<close>\<close>

definition threshold :: real where
  "threshold = 3 / 10"

definition y_pred_alt :: "fitted_pipeline \<Rightarrow> row frame \<Rightarrow> nat list" where
  "y_pred_alt m X_test = map (\<lambda>p. if p \<ge> threshold then 1 else 0) (y_proba m X_test)"

section \<open>3.2 K-means clustering: the silhouette sweep\<close>

text \<open>
  The sweep reads \<^verbatim>\<open>X_transformed\<close>, the preprocessed rows of \<^verbatim>\<open>ml_df\<close>: a list of
  feature vectors. \<^verbatim>\<open>KMeans(n_clusters=k, random_state=0).fit(X)\<close> raises ValueError
  when there are fewer samples than clusters and otherwise gives every sample a label.
  Which label is the clustering's business: \<open>assign k X j\<close> is the label of sample \<open>j\<close>,
  a parameter.
\<close>

definition kmeans_labels :: "(nat \<Rightarrow> real list list \<Rightarrow> nat \<Rightarrow> nat) \<Rightarrow> nat \<Rightarrow> real list list
    \<Rightarrow> error + nat list" where
  "kmeans_labels assign k X =
    (if length X < k then Inl (ValueError ''n_samples should be >= n_clusters'')
     else Inr (map (assign k X) [0..<length X]))"

definition euclidean :: "real list \<Rightarrow> real list \<Rightarrow> real" where
  "euclidean x y = sqrt (sum_list (map2 (\<lambda>a b. (a - b)\<^sup>2) x y))"

text \<open>The sum of the distances from sample \<open>i\<close> to the samples with label \<open>l\<close>.\<close>

definition dist_sum :: "real list list \<Rightarrow> nat list \<Rightarrow> nat \<Rightarrow> nat \<Rightarrow> real" where
  "dist_sum X labels i l =
    sum_list (map (\<lambda>j. euclidean (X ! i) (X ! j)) (filter (\<lambda>j. labels ! j = l) [0..<length X]))"

definition label_freq :: "nat list \<Rightarrow> nat \<Rightarrow> nat" where
  "label_freq labels l = length (filter (\<lambda>x. x = l) labels)"

text \<open>
  \<^verbatim>\<open>silhouette_samples\<close> for one sample: \<open>a\<close> is the mean distance to the other
  samples of its own cluster, \<open>b\<close> the smallest mean distance to the samples of another
  cluster, and the coefficient is \<open>(b - a) / max a b\<close>. Where numpy's division gives NaN
  (a cluster of one sample, or \<open>a = b = 0\<close>) the coefficient is 0.
\<close>

definition silhouette_sample :: "real list list \<Rightarrow> nat list \<Rightarrow> nat \<Rightarrow> real" where
  "silhouette_sample X labels i =
    (let own = labels ! i;
         a = dist_sum X labels i own / real (label_freq labels own - 1);
         b = min_list (map (\<lambda>l. dist_sum X labels i l / real (label_freq labels l))
                           (filter (\<lambda>l. l \<noteq> own) (remdups labels)))
     in if label_freq labels own = 1 then 0
        else if max a b = 0 then 0
        else (b - a) / max a b)"

text \<open>
  \<^verbatim>\<open>silhouette_score(X, labels)\<close>: ValueError unless there is one label per sample and
  the number of distinct labels is between 2 and the number of samples minus 1;
  otherwise the mean of the samples' coefficients.
\<close>

definition silhouette_score :: "real list list \<Rightarrow> nat list \<Rightarrow> error + real" where
  "silhouette_score X labels =
    (let n_labels = length (remdups labels); n_samples = length X
     in if length labels \<noteq> n_samples
          then Inl (ValueError ''Found input variables with inconsistent numbers of samples'')
        else if 1 < n_labels \<and> n_labels < n_samples
          then Inr (sum_list (map (silhouette_sample X labels) [0..<n_samples]) / real n_samples)
        else Inl (ValueError ''Number of labels is invalid''))"

text \<open>
  \<^verbatim>\<open>silhouette_scores = []\<close>
  \<^verbatim>\<open>for k in range(2, 11):\<close>
  \<^verbatim>\<open>    kmeans = KMeans(n_clusters=k, random_state=0); kmeans.fit(X_transformed)\<close>
  \<^verbatim>\<open>    score = silhouette_score(X_transformed, kmeans.labels_)\<close>
  \<^verbatim>\<open>    silhouette_scores.append(score)\<close>
  The loop over the remaining cluster counts, with the list built so far; an exception
  ends the cell.
\<close>

fun sweep_loop :: "(nat \<Rightarrow> real list list \<Rightarrow> nat \<Rightarrow> nat) \<Rightarrow> real list list \<Rightarrow> nat list
    \<Rightarrow> real list \<Rightarrow> error + real list" where
  "sweep_loop assign X [] scores = Inr scores"
| "sweep_loop assign X (k # ks) scores =
    (case kmeans_labels assign k X of
       Inl e \<Rightarrow> Inl e
     | Inr labels \<Rightarrow>
        (case silhouette_score X labels of
           Inl e \<Rightarrow> Inl e
         | Inr score \<Rightarrow> sweep_loop assign X ks (scores @ [score])))"

definition silhouette_scores :: "(nat \<Rightarrow> real list list \<Rightarrow> nat \<Rightarrow> nat) \<Rightarrow> real list list
    \<Rightarrow> error + real list" where
  "silhouette_scores assign X = sweep_loop assign X [2..<11] []"

text \<open>
  The condition under which no step of the sweep raises: every cluster count is at most
  the number of samples, and its labels have between 2 and the number of samples minus 1
  distinct values.
\<close>

definition sweep_ok :: "(nat \<Rightarrow> real list list \<Rightarrow> nat \<Rightarrow> nat) \<Rightarrow> real list list \<Rightarrow> nat \<Rightarrow> bool" where
  "sweep_ok assign X k \<longleftrightarrow>
    k \<le> length X
    \<and> 1 < length (remdups (map (assign k X) [0..<length X]))
    \<and> length (remdups (map (assign k X) [0..<length X])) < length X"

section \<open>The cohort and the row counts in the words of the specification\<close>

text \<open>
  The Cohort of the specification: the rows of the loaded frame with no missing value in
  a required column, in the order of the frame.
\<close>

definition cohort_rows :: "row frame \<Rightarrow> row frame" where
  "cohort_rows df = filter (\<lambda>(i, r). \<not> isnull_any amb_any (amb r)) df"

text \<open>The number of positions of a frame whose row satisfies \<open>P\<close>.\<close>

definition count_rows :: "(row \<Rightarrow> bool) \<Rightarrow> row frame \<Rightarrow> nat" where
  "count_rows P df = length (filter (\<lambda>j. P (snd (df ! j))) [0..<length df])"

text \<open>The sum of the four cells of a 2 x 2 table.\<close>

definition table_total :: "(nat \<times> nat) \<times> (nat \<times> nat) \<Rightarrow> nat" where
  "table_total t = (case t of ((a, b), (c, d)) \<Rightarrow> a + b + c + d)"

text \<open>
  The arithmetic mean of a row's items in the columns \<open>cols\<close>, in the words of the
  specification; it is read only where every item is present.
\<close>

definition arithmetic_mean_of_items :: "row \<Rightarrow> string list \<Rightarrow> real" where
  "arithmetic_mean_of_items r cols = sum_list (map (\<lambda>c. the (amb r c)) cols) / real (length cols)"

section \<open>Sample rows and frames\<close>

text \<open>A row whose questionnaire answers are all \<open>x\<close>, and the same row with one answer missing.\<close>

definition sample_row :: "string \<Rightarrow> string \<Rightarrow> string option \<Rightarrow> string option \<Rightarrow> real \<Rightarrow> row" where
  "sample_row g dx th bh x =
    \<lparr>PAT_ID = ''P'', D_GENDER_DESC = Some g, D_RACE_DESC = None, D_ETHNICITY_DESC = None,
     D_FINAN_CLASS_DESC = None, D_ICD_DESC = Some dx,
     IP_R_NEU_CSSRS_SUICIDAL_THOUGHTS = th, IP_R_SW_CSSRS_SUICIDAL_BEHAVIOR = bh,
     age = Some 50, amb = (\<lambda>c. Some x)\<rparr>"

definition sample_row_missing :: "string \<Rightarrow> string \<Rightarrow> string option \<Rightarrow> string option \<Rightarrow> real \<Rightarrow> row" where
  "sample_row_missing g dx th bh x =
    (sample_row g dx th bh x)\<lparr>amb := (\<lambda>c. if c = ''AMB_NSR_R_MOOD'' then None else Some x)\<rparr>"

text \<open>One complete row and one row with a missing answer.\<close>

definition df_two :: "row frame" where
  "df_two =
    [(0, sample_row ''Female'' ''TRIGEMINAL NEURALGIA'' (Some ''Yes'') None 3),
     (1, sample_row_missing ''Female'' ''ATYPICAL FACIAL PAIN'' (Some ''No'') (Some ''No'') 2)]"

text \<open>
  Eight complete rows: one woman without and three with a positive screening answer,
  three men without and one with.
\<close>

definition df_chi :: "row frame" where
  "df_chi = zip [0..<8]
    [sample_row ''Female'' ''TRIGEMINAL NEURALGIA'' (Some ''No'') (Some ''No'') 1,
     sample_row ''Female'' ''TRIGEMINAL NEURALGIA'' (Some ''Yes'') (Some ''No'') 1,
     sample_row ''Female'' ''TRIGEMINAL NEURALGIA'' (Some ''Yes'') (Some ''No'') 1,
     sample_row ''Female'' ''TRIGEMINAL NEURALGIA'' (Some ''Yes'') (Some ''No'') 1,
     sample_row ''Male'' ''TRIGEMINAL NEURALGIA'' (Some ''No'') (Some ''No'') 1,
     sample_row ''Male'' ''TRIGEMINAL NEURALGIA'' (Some ''No'') (Some ''No'') 1,
     sample_row ''Male'' ''TRIGEMINAL NEURALGIA'' (Some ''No'') (Some ''No'') 1,
     sample_row ''Male'' ''TRIGEMINAL NEURALGIA'' (Some ''Yes'') (Some ''No'') 1]"

text \<open>
  Ten complete rows: two with a positive screening answer, whose answers are all 0 and
  all 4, and eight without, whose answers are all 1 (four rows) and all 3 (four rows).
\<close>

definition df_welch :: "row frame" where
  "df_welch = zip [0..<10]
    [sample_row ''Female'' ''TRIGEMINAL NEURALGIA'' (Some ''Yes'') (Some ''No'') 0,
     sample_row ''Female'' ''TRIGEMINAL NEURALGIA'' (Some ''Yes'') (Some ''No'') 4,
     sample_row ''Female'' ''TRIGEMINAL NEURALGIA'' (Some ''No'') (Some ''No'') 1,
     sample_row ''Female'' ''TRIGEMINAL NEURALGIA'' (Some ''No'') (Some ''No'') 1,
     sample_row ''Female'' ''TRIGEMINAL NEURALGIA'' (Some ''No'') (Some ''No'') 1,
     sample_row ''Female'' ''TRIGEMINAL NEURALGIA'' (Some ''No'') (Some ''No'') 1,
     sample_row ''Male'' ''TRIGEMINAL NEURALGIA'' (Some ''No'') (Some ''No'') 3,
     sample_row ''Male'' ''TRIGEMINAL NEURALGIA'' (Some ''No'') (Some ''No'') 3,
     sample_row ''Male'' ''TRIGEMINAL NEURALGIA'' (Some ''No'') (Some ''No'') 3,
     sample_row ''Male'' ''TRIGEMINAL NEURALGIA'' (Some ''No'') (Some ''No'') 3]"

text \<open>Four complete rows with a single man.\<close>

definition df_small :: "row frame" where
  "df_small = zip [0..<4]
    [sample_row ''Female'' ''TRIGEMINAL NEURALGIA'' (Some ''No'') (Some ''No'') 1,
     sample_row ''Female'' ''TRIGEMINAL NEURALGIA'' (Some ''Yes'') (Some ''No'') 1,
     sample_row ''Female'' ''ATYPICAL FACIAL PAIN'' (Some ''No'') (Some ''No'') 1,
     sample_row ''Male'' ''ATYPICAL FACIAL PAIN'' (Some ''No'') (Some ''No'') 1]"

text \<open>A fitted pipeline that reads the age only, and two rows of age 50 to predict.\<close>

definition pipeline_age :: fitted_pipeline where
  "pipeline_age = \<lparr>preprocess = (\<lambda>r. [case age r of None \<Rightarrow> 0 | Some a \<Rightarrow> a - 40]),
     coef = [1], intercept = 0\<rparr>"

text \<open>Eleven samples on a line, and the clustering that deals the labels out in turn.\<close>

definition X_line :: "real list list" where
  "X_line = [[0], [1], [2], [3], [4], [5], [6], [7], [8], [9], [10]]"

definition assign_mod :: "nat \<Rightarrow> real list list \<Rightarrow> nat \<Rightarrow> nat" where
  "assign_mod k X j = j mod k"

section \<open>Properties\<close>

subsection \<open>Helper facts\<close>

lemma CSRSS_map_cases: "CSRSS_map s = None \<or> CSRSS_map s = Some 0 \<or> CSRSS_map s = Some 1"
  by (simp add: CSRSS_map_def)

lemma series_map_CSRSS_cases:
  "series_map CSRSS_map x = None \<or> series_map CSRSS_map x = Some 0
    \<or> series_map CSRSS_map x = Some 1"
  using CSRSS_map_cases by (cases x) (simp_all add: series_map_def)

lemma flag_missing_mem:
  "(i, v) \<in> set fr \<Longrightarrow> isnull_any cols v \<Longrightarrow> i \<in> set (flag_missing cols fr)"
  by (force simp: flag_missing_def)

lemma cohort_filter_complete:
  "(i, v) \<in> set (cohort_filter cols fr) \<Longrightarrow> \<not> isnull_any cols v"
  using flag_missing_mem [of i v fr cols]
  by (auto simp: cohort_filter_def drop_labels_def)

lemma flag_missing_cohort_filter: "flag_missing cols (cohort_filter cols fr) = []"
proof -
  have "filter (\<lambda>(i, v). isnull_any cols v) (cohort_filter cols fr) = []"
    using cohort_filter_complete [of _ _ cols fr] by (auto simp: filter_empty_conv)
  then show ?thesis by (simp add: flag_missing_def)
qed

lemma drop_labels_Nil: "drop_labels [] fr = fr"
  by (simp add: drop_labels_def)

lemma select_amb_drop_labels: "select_amb (drop_labels ls df) = drop_labels ls (select_amb df)"
  by (induction df) (auto simp: select_amb_def drop_labels_def)

lemma select_amb_ml_df: "select_amb (ml_df df) = amb_df df"
  by (simp add: ml_df_def amb_df_def cohort_filter_def amb_df_missing_def select_amb_drop_labels)

lemma ICD_map_range:
  "ICD_map s = Some c \<Longrightarrow>
    c \<in> set [''AFP'', ''HFS'', ''MS'', ''TN'', ''Posttraumatic'', ''PHTN'', ''Other'']"
  unfolding ICD_map_def ICD_table_def by (auto split: if_splits)

lemma ICD_map_TN: "ICD_map s = Some ''TN'' \<longleftrightarrow> s = ''TRIGEMINAL NEURALGIA''"
  unfolding ICD_map_def ICD_table_def by (auto split: if_splits)

subsection \<open>C1: the either-flag\<close>

text \<open>
  C1. For every row, \<open>CSRSS_Either\<close> is 1 exactly when one of the two mapped screening
  flags is 1 (true) and 0 otherwise, so it is never null. A row with one flag true and
  the other null has \<open>CSRSS_Either = 1\<close>; a row with both flags null has
  \<open>CSRSS_Either = 0\<close>.
\<close>

theorem either_flag_iff:
  "(CSRSS_Either r = 1 \<longleftrightarrow> CSRSS_Thoughts r = Some 1 \<or> CSRSS_Behaviors r = Some 1)
   \<and> (CSRSS_Either r = 0 \<longleftrightarrow> \<not> (CSRSS_Thoughts r = Some 1 \<or> CSRSS_Behaviors r = Some 1))
   \<and> (CSRSS_Thoughts r = Some 1 \<and> CSRSS_Behaviors r = None \<longrightarrow> CSRSS_Either r = 1)
   \<and> (CSRSS_Thoughts r = None \<and> CSRSS_Behaviors r = Some 1 \<longrightarrow> CSRSS_Either r = 1)
   \<and> (CSRSS_Thoughts r = None \<and> CSRSS_Behaviors r = None \<longrightarrow> CSRSS_Either r = 0)"
proof -
  have t: "CSRSS_Thoughts r = None \<or> CSRSS_Thoughts r = Some 0 \<or> CSRSS_Thoughts r = Some 1"
    unfolding CSRSS_Thoughts_def by (rule series_map_CSRSS_cases)
  have b: "CSRSS_Behaviors r = None \<or> CSRSS_Behaviors r = Some 0 \<or> CSRSS_Behaviors r = Some 1"
    unfolding CSRSS_Behaviors_def by (rule series_map_CSRSS_cases)
  from t b show ?thesis
    by (auto simp: CSRSS_Either_def sum_skipna_def)
qed

theorem either_flag_iff_witness:
  "CSRSS_Thoughts (sample_row ''Female'' ''TRIGEMINAL NEURALGIA'' (Some ''Yes'') None 3) = Some 1
   \<and> CSRSS_Behaviors (sample_row ''Female'' ''TRIGEMINAL NEURALGIA'' (Some ''Yes'') None 3) = None
   \<and> CSRSS_Either (sample_row ''Female'' ''TRIGEMINAL NEURALGIA'' (Some ''Yes'') None 3) = 1"
  using either_flag_iff [of "sample_row ''Female'' ''TRIGEMINAL NEURALGIA'' (Some ''Yes'') None 3"]
  by (simp add: sample_row_def CSRSS_Thoughts_def CSRSS_Behaviors_def series_map_def
      CSRSS_map_def)

subsection \<open>C2: the diagnosis category\<close>

text \<open>
  C2, as the specification states it, fails: a diagnosis string that is not a key of
  \<open>ICD_map\<close> raises nothing. \<^verbatim>\<open>Series.map\<close> gives the row a null category, and the
  row's \<open>ICD_TN\<close> is 0.
\<close>

theorem unmapped_diagnosis_counterexample:
  "ICD_map ''MIGRAINE'' = None
   \<and> ICD_Clean (sample_row ''Female'' ''MIGRAINE'' None None 3) = None
   \<and> ICD_TN (sample_row ''Female'' ''MIGRAINE'' None None 3) = 0"
  by (simp add: ICD_map_def ICD_table_def ICD_Clean_def ICD_TN_def series_map_def sample_row_def)

text \<open>
  C2, amended. A diagnosis string that is a key of the table gets the table's category,
  one of the seven category codes. A string that is not a key gets the null category and
  \<open>ICD_TN = 0\<close>, without an error. \<open>ICD_TN\<close> is 1 exactly for the string
  \<^verbatim>\<open>TRIGEMINAL NEURALGIA\<close>.
\<close>

theorem diagnosis_category_mapped_or_null:
  "(D_ICD_DESC r = Some s \<and> ICD_map s = Some c \<longrightarrow>
      ICD_Clean r = Some c
      \<and> c \<in> set [''AFP'', ''HFS'', ''MS'', ''TN'', ''Posttraumatic'', ''PHTN'', ''Other''])
   \<and> (D_ICD_DESC r = Some s \<and> ICD_map s = None \<longrightarrow> ICD_Clean r = None \<and> ICD_TN r = 0)
   \<and> (ICD_TN r = 1 \<longleftrightarrow> D_ICD_DESC r = Some ''TRIGEMINAL NEURALGIA'')"
proof -
  have "ICD_TN r = 1 \<longleftrightarrow> D_ICD_DESC r = Some ''TRIGEMINAL NEURALGIA''"
    using ICD_map_TN by (cases "D_ICD_DESC r") (simp_all add: ICD_TN_def ICD_Clean_def series_map_def)
  moreover have "D_ICD_DESC r = Some s \<and> ICD_map s = Some c \<longrightarrow>
      ICD_Clean r = Some c
      \<and> c \<in> set [''AFP'', ''HFS'', ''MS'', ''TN'', ''Posttraumatic'', ''PHTN'', ''Other'']"
    using ICD_map_range [of s c] by (simp add: ICD_Clean_def series_map_def)
  moreover have "D_ICD_DESC r = Some s \<and> ICD_map s = None \<longrightarrow> ICD_Clean r = None \<and> ICD_TN r = 0"
    by (simp add: ICD_Clean_def ICD_TN_def series_map_def)
  ultimately show ?thesis by blast
qed

theorem diagnosis_category_mapped_or_null_witness:
  "D_ICD_DESC (sample_row ''Male'' ''ATYPICAL FACE PAIN'' None None 1) = Some ''ATYPICAL FACE PAIN''
   \<and> ICD_map ''ATYPICAL FACE PAIN'' = Some ''AFP''
   \<and> ICD_Clean (sample_row ''Male'' ''ATYPICAL FACE PAIN'' None None 1) = Some ''AFP''"
  using diagnosis_category_mapped_or_null
    [of "sample_row ''Male'' ''ATYPICAL FACE PAIN'' None None 1" "''ATYPICAL FACE PAIN''" "''AFP''"]
  by (simp add: sample_row_def ICD_map_def ICD_table_def)

subsection \<open>C7: the cohort filter is idempotent\<close>

text \<open>
  C7. For every frame and every list of required columns, filtering the filtered frame
  again with the same columns flags no row and returns the frame as it is: the same rows
  in the same order. The same holds for the notebook's own filter of the full rows,
  \<open>ml_df\<close>.
\<close>

theorem cohort_filter_idempotent:
  "flag_missing cols (cohort_filter cols fr) = []
   \<and> cohort_filter cols (cohort_filter cols fr) = cohort_filter cols fr
   \<and> amb_df_missing (ml_df df) = []
   \<and> ml_df (ml_df df) = ml_df df"
proof -
  have 1: "flag_missing cols (cohort_filter cols fr) = []"
    by (rule flag_missing_cohort_filter)
  have 2: "cohort_filter cols (cohort_filter cols fr) = cohort_filter cols fr"
    unfolding cohort_filter_def [of cols "cohort_filter cols fr"]
    by (simp add: flag_missing_cohort_filter drop_labels_Nil)
  have 3: "amb_df_missing (ml_df df) = []"
    unfolding amb_df_missing_def [of "ml_df df"] select_amb_ml_df amb_df_def
    by (rule flag_missing_cohort_filter)
  have 4: "ml_df (ml_df df) = ml_df df"
    unfolding ml_df_def [of "ml_df df"] 3 by (rule drop_labels_Nil)
  from 1 2 3 4 show ?thesis by blast
qed

theorem cohort_filter_idempotent_witness:
  "map fst (ml_df df_two) = [0] \<and> map fst (ml_df (ml_df df_two)) = [0]"
proof -
  have "map fst (ml_df df_two) = [0]"
    by (simp add: ml_df_def df_two_def amb_df_missing_def flag_missing_def select_amb_def
        isnull_any_def amb_any_def amb_painintensity_def amb_interference_def amb_specific_def
        drop_labels_def sample_row_def sample_row_missing_def)
  then show ?thesis using cohort_filter_idempotent [of _ _ df_two] by simp
qed

subsection \<open>Helper facts on the cohort rows\<close>

lemma map_fst_select_amb: "map fst (select_amb df) = map fst df"
  by (induction df) (auto simp: select_amb_def)

lemma map_fst_amb_df: "map fst (amb_df df) = map fst (ml_df df)"
  using select_amb_ml_df [of df] map_fst_select_amb [of "ml_df df"] by simp

lemma amb_df_complete: "(i, v) \<in> set (amb_df df) \<Longrightarrow> \<not> isnull_any amb_any v"
  unfolding amb_df_def by (rule cohort_filter_complete)

lemma ml_df_complete: "(i, r) \<in> set (ml_df df) \<Longrightarrow> \<not> isnull_any amb_any (amb r)"
proof -
  assume "(i, r) \<in> set (ml_df df)"
  then have "(i, amb r) \<in> set (select_amb (ml_df df))"
    by (force simp: select_amb_def)
  then show ?thesis using amb_df_complete [of i "amb r" df] by (simp add: select_amb_ml_df)
qed

lemma isnull_any_subset:
  "\<not> isnull_any cols v \<Longrightarrow> set cs \<subseteq> set cols \<Longrightarrow> \<not> isnull_any cs v"
  by (auto simp: isnull_any_def list_ex_iff)

lemma amb_any_domains:
  "set amb_painintensity \<subseteq> set amb_any" "set amb_interference \<subseteq> set amb_any"
  "set amb_specific \<subseteq> set amb_any"
  by (auto simp: amb_any_def)

lemma map_filter_present:
  "\<not> isnull_any cols v \<Longrightarrow> List.map_filter (\<lambda>c. c) (map v cols) = map (\<lambda>c. the (v c)) cols"
  by (induction cols) (auto simp: isnull_any_def List.map_filter_simps)

lemma mean_skipna_present:
  assumes "\<not> isnull_any cols v" "cols \<noteq> []"
  shows "mean_skipna (map v cols) = Some (sum_list (map (\<lambda>c. the (v c)) cols) / real (length cols))"
  using assms by (simp add: mean_skipna_def map_filter_present)

lemma sum_skipna_present:
  "\<not> isnull_any cols v \<Longrightarrow> sum_skipna (map v cols) = sum_list (map (\<lambda>c. the (v c)) cols)"
  by (induction cols) (auto simp: isnull_any_def sum_skipna_def)

lemma dropna_domain_mean:
  assumes "\<And>i v. (i, v) \<in> set fr \<Longrightarrow> \<not> isnull_any cols v" "cols \<noteq> []"
  shows "dropna (domain_mean cols fr)
    = map (\<lambda>(i, v). (i, sum_list (map (\<lambda>c. the (v c)) cols) / real (length cols))) fr"
  using assms(1)
proof (induction fr)
  case Nil
  then show ?case by (simp add: dropna_def domain_mean_def List.map_filter_simps)
next
  case (Cons a fr)
  obtain i v where a: "a = (i, v)" by (cases a)
  have "\<not> isnull_any cols v" using Cons.prems [of i v] a by simp
  then have m: "mean_skipna (map v cols) = Some (sum_list (map (\<lambda>c. the (v c)) cols) / real (length cols))"
    using assms(2) by (rule mean_skipna_present)
  have ih: "dropna (domain_mean cols fr)
    = map (\<lambda>(i, v). (i, sum_list (map (\<lambda>c. the (v c)) cols) / real (length cols))) fr"
    by (rule Cons.IH) (use Cons.prems in auto)
  show ?case using ih m a
    by (simp add: dropna_def domain_mean_def List.map_filter_simps)
qed

lemma domain_df_eq:
  assumes "set cols \<subseteq> set amb_any" "cols \<noteq> []"
  shows "dropna (domain_mean cols (amb_df df))
    = map (\<lambda>(i, v). (i, sum_list (map (\<lambda>c. the (v c)) cols) / real (length cols))) (amb_df df)"
  using amb_df_complete isnull_any_subset assms by (intro dropna_domain_mean) blast+

lemma domain_df_labels:
  assumes "set cols \<subseteq> set amb_any" "cols \<noteq> []"
  shows "map fst (dropna (domain_mean cols (amb_df df))) = map fst (ml_df df)"
proof -
  have "map fst (dropna (domain_mean cols (amb_df df))) = map fst (amb_df df)"
    unfolding domain_df_eq [OF assms] by (induction "amb_df df") auto
  then show ?thesis by (simp add: map_fst_amb_df)
qed

lemma CSRSS_Either_01: "CSRSS_Either r = 0 \<or> CSRSS_Either r = 1"
  by (simp add: CSRSS_Either_def Let_def)

lemma is_sui_ml_df: "is_sui df = map (\<lambda>(i, r). CSRSS_Either r) (ml_df df)"
  by (simp add: is_sui_def ml_df_def)

lemmas frame_defs = ml_df_def amb_df_missing_def flag_missing_def select_amb_def
        isnull_any_def amb_any_def amb_painintensity_def amb_interference_def amb_specific_def
        drop_labels_def sample_row_def sample_row_missing_def

lemma ml_df_df_two:
  "ml_df df_two = [(0, sample_row ''Female'' ''TRIGEMINAL NEURALGIA'' (Some ''Yes'') None 3)]"
  by (simp add: df_two_def frame_defs)

lemma amb_domains_nonempty:
  "amb_painintensity \<noteq> []" "amb_interference \<noteq> []" "amb_specific \<noteq> []"
  by (simp_all add: amb_painintensity_def amb_interference_def amb_specific_def)

subsection \<open>C5: the domain scores\<close>

text \<open>
  C5, as the specification states it, fails in its last part: for the cohort row of
  \<open>df_two\<close>, whose answers are all 3, the three domain means are 3, and the
  covariates that the pipelines read are 12, 21 and 21.
\<close>

theorem ml_covariates_counterexample:
  "ml_df df_two = [(0, sample_row ''Female'' ''TRIGEMINAL NEURALGIA'' (Some ''Yes'') None 3)]
   \<and> mean_skipna (map (amb (sample_row ''Female'' ''TRIGEMINAL NEURALGIA'' (Some ''Yes'') None 3))
        amb_painintensity) = Some 3
   \<and> mean_skipna (map (amb (sample_row ''Female'' ''TRIGEMINAL NEURALGIA'' (Some ''Yes'') None 3))
        amb_interference) = Some 3
   \<and> mean_skipna (map (amb (sample_row ''Female'' ''TRIGEMINAL NEURALGIA'' (Some ''Yes'') None 3))
        amb_specific) = Some 3
   \<and> continuous_features (sample_row ''Female'' ''TRIGEMINAL NEURALGIA'' (Some ''Yes'') None 3)
      = [Some 50, Some 12, Some 21, Some 21]"
  unfolding ml_df_df_two
  by (simp add: sample_row_def mean_skipna_def List.map_filter_simps continuous_features_def
      Pain_Intensity_def Interference_General_def Interference_Face_def sum_skipna_def
      amb_painintensity_def amb_interference_def amb_specific_def)

text \<open>
  C5, amended. For every row of the cohort no item of the three domains is null, each
  domain score is non-null and is the arithmetic mean of the domain's items, and the
  value stands in the domain's series under the row's label. The continuous covariates
  \<open>Pain_Intensity\<close>, \<open>Interference_General\<close> and \<open>Interference_Face\<close> of the
  machine-learning frame are the sums of the same items: 4, 7 and 7 times the means.
\<close>

theorem domain_scores_of_cohort_row:
  assumes "(i, r) \<in> set (ml_df df)"
  shows "\<not> isnull_any amb_painintensity (amb r)
    \<and> \<not> isnull_any amb_interference (amb r)
    \<and> \<not> isnull_any amb_specific (amb r)
    \<and> mean_skipna (map (amb r) amb_painintensity) = Some (arithmetic_mean_of_items r amb_painintensity)
    \<and> mean_skipna (map (amb r) amb_interference) = Some (arithmetic_mean_of_items r amb_interference)
    \<and> mean_skipna (map (amb r) amb_specific) = Some (arithmetic_mean_of_items r amb_specific)
    \<and> (i, arithmetic_mean_of_items r amb_painintensity) \<in> set (amb_painintensity_df df)
    \<and> (i, arithmetic_mean_of_items r amb_interference) \<in> set (amb_interference_df df)
    \<and> (i, arithmetic_mean_of_items r amb_specific) \<in> set (amb_specific_df df)
    \<and> Pain_Intensity r = 4 * arithmetic_mean_of_items r amb_painintensity
    \<and> Interference_General r = 7 * arithmetic_mean_of_items r amb_interference
    \<and> Interference_Face r = 7 * arithmetic_mean_of_items r amb_specific"
proof -
  have c: "\<not> isnull_any amb_any (amb r)" using assms by (rule ml_df_complete)
  have p: "\<not> isnull_any amb_painintensity (amb r)"
    using c amb_any_domains(1) by (rule isnull_any_subset)
  have g: "\<not> isnull_any amb_interference (amb r)"
    using c amb_any_domains(2) by (rule isnull_any_subset)
  have f: "\<not> isnull_any amb_specific (amb r)"
    using c amb_any_domains(3) by (rule isnull_any_subset)
  have mem: "(i, amb r) \<in> set (amb_df df)"
    using assms unfolding select_amb_ml_df [symmetric] by (force simp: select_amb_def)
  have in_df: "(i, arithmetic_mean_of_items r cols) \<in> set (dropna (domain_mean cols (amb_df df)))"
    if "set cols \<subseteq> set amb_any" "cols \<noteq> []" for cols
    unfolding domain_df_eq [OF that] arithmetic_mean_of_items_def using mem by force
  have mp: "mean_skipna (map (amb r) amb_painintensity) = Some (arithmetic_mean_of_items r amb_painintensity)"
    unfolding arithmetic_mean_of_items_def
    using p amb_domains_nonempty(1) by (rule mean_skipna_present)
  have mg: "mean_skipna (map (amb r) amb_interference) = Some (arithmetic_mean_of_items r amb_interference)"
    unfolding arithmetic_mean_of_items_def
    using g amb_domains_nonempty(2) by (rule mean_skipna_present)
  have mf: "mean_skipna (map (amb r) amb_specific) = Some (arithmetic_mean_of_items r amb_specific)"
    unfolding arithmetic_mean_of_items_def
    using f amb_domains_nonempty(3) by (rule mean_skipna_present)
  have sp: "Pain_Intensity r = 4 * arithmetic_mean_of_items r amb_painintensity"
    unfolding Pain_Intensity_def arithmetic_mean_of_items_def sum_skipna_present [OF p]
    by (simp add: amb_painintensity_def)
  have sg: "Interference_General r = 7 * arithmetic_mean_of_items r amb_interference"
    unfolding Interference_General_def arithmetic_mean_of_items_def sum_skipna_present [OF g]
    by (simp add: amb_interference_def)
  have sf: "Interference_Face r = 7 * arithmetic_mean_of_items r amb_specific"
    unfolding Interference_Face_def arithmetic_mean_of_items_def sum_skipna_present [OF f]
    by (simp add: amb_specific_def)
  show ?thesis
    using p g f mp mg mf sp sg sf
      in_df [OF amb_any_domains(1) amb_domains_nonempty(1)]
      in_df [OF amb_any_domains(2) amb_domains_nonempty(2)]
      in_df [OF amb_any_domains(3) amb_domains_nonempty(3)]
    unfolding amb_painintensity_df_def amb_interference_df_def amb_specific_df_def
    by blast
qed

theorem domain_scores_of_cohort_row_witness:
  "(0, sample_row ''Female'' ''TRIGEMINAL NEURALGIA'' (Some ''Yes'') None 3) \<in> set (ml_df df_two)
   \<and> Pain_Intensity (sample_row ''Female'' ''TRIGEMINAL NEURALGIA'' (Some ''Yes'') None 3)
      = 4 * arithmetic_mean_of_items
          (sample_row ''Female'' ''TRIGEMINAL NEURALGIA'' (Some ''Yes'') None 3) amb_painintensity"
proof -
  have m: "(0, sample_row ''Female'' ''TRIGEMINAL NEURALGIA'' (Some ''Yes'') None 3) \<in> set (ml_df df_two)"
    unfolding ml_df_df_two by simp
  show ?thesis using m domain_scores_of_cohort_row [OF m] by simp
qed

subsection \<open>Helper facts on grouped counts\<close>

lemma length_group_value_counts: "length (group_value_counts vs) = card (set vs)"
  by (simp add: group_value_counts_def length_remdups_card_conv)

lemma set_map_filter_id: "set (List.map_filter (\<lambda>k. k) ks) = {g. Some g \<in> set ks}"
  by (induction ks) (auto simp: List.map_filter_simps split: option.splits)

lemma sum_list_bounded_le:
  fixes f :: "'a \<Rightarrow> nat"
  assumes "\<And>x. x \<in> set xs \<Longrightarrow> f x \<le> b"
  shows "sum_list (map f xs) \<le> length xs * b"
  using assms by (induction xs) (auto simp: add_mono)

lemma sum_list_bounded_eq:
  fixes f :: "'a \<Rightarrow> nat"
  assumes "\<And>x. x \<in> set xs \<Longrightarrow> f x \<le> b" "sum_list (map f xs) = length xs * b"
  shows "\<And>x. x \<in> set xs \<Longrightarrow> f x = b"
  using assms
proof (induction xs)
  case Nil
  then show ?case by simp
next
  case (Cons a xs)
  have le: "sum_list (map f xs) \<le> length xs * b"
    using Cons.prems(2) by (intro sum_list_bounded_le) auto
  have fa: "f a \<le> b" using Cons.prems(2) by simp
  have tot: "f a + sum_list (map f xs) = b + length xs * b" using Cons.prems(3) by simp
  from le fa tot have "f a = b" "sum_list (map f xs) = length xs * b" by linarith+
  with Cons show ?case by auto
qed

lemma gvc_four_cells:
  fixes keys :: "('k::linorder) option list"
  assumes vals: "set vals \<subseteq> {0, 1}"
    and keys: "set keys \<subseteq> {None, Some g1, Some g2}"
    and four: "length (groupby_value_counts keys vals) = 4"
  shows "g1 \<noteq> g2 \<and> (Some g1, 0) \<in> set (zip keys vals) \<and> (Some g1, 1) \<in> set (zip keys vals)
    \<and> (Some g2, 0) \<in> set (zip keys vals) \<and> (Some g2, 1) \<in> set (zip keys vals)"
proof -
  define G where "G = sort (remdups (List.map_filter (\<lambda>k. k) keys))"
  define V where "V g = set (map snd (filter (\<lambda>(k, v). k = Some g) (zip keys vals)))" for g
  have len: "length (groupby_value_counts keys vals) = sum_list (map (\<lambda>g. card (V g)) G)"
    by (simp add: groupby_value_counts_def length_concat comp_def length_group_value_counts
        G_def V_def)
  have dG: "distinct G" by (simp add: G_def)
  have sG: "set G \<subseteq> {g1, g2}"
    using keys by (auto simp: G_def set_map_filter_id)
  have lG: "length G \<le> 2"
  proof -
    have "length G = card (set G)" using dG by (simp add: distinct_card)
    also have "\<dots> \<le> card {g1, g2}" using sG by (intro card_mono) auto
    also have "\<dots> \<le> 2" by (simp add: card_insert_if)
    finally show ?thesis .
  qed
  have Vsub: "V g \<subseteq> {0, 1}" for g
    using vals by (auto simp: V_def dest!: set_zip_rightD)
  have Vle: "card (V g) \<le> 2" for g
  proof -
    have "card (V g) \<le> card {0::nat, 1}" using Vsub by (intro card_mono) auto
    then show ?thesis by simp
  qed
  have "sum_list (map (\<lambda>g. card (V g)) G) \<le> length G * 2"
    using Vle by (intro sum_list_bounded_le) auto
  with four len lG have l2: "length G = 2" by linarith
  then have tot: "sum_list (map (\<lambda>g. card (V g)) G) = length G * 2"
    using four len by simp
  have V2: "card (V g) = 2" if "g \<in> set G" for g
    using sum_list_bounded_eq [of G "\<lambda>g. card (V g)" 2 g] Vle tot that by blast
  have Vfull: "V g = {0, 1}" if "g \<in> set G" for g
  proof (rule card_subset_eq)
    show "finite {0::nat, 1}" by simp
    show "V g \<subseteq> {0, 1}" by (rule Vsub)
    show "card (V g) = card {0::nat, 1}" using V2 [OF that] by simp
  qed
  have cG: "card (set G) = 2" using dG l2 by (simp add: distinct_card)
  have neq: "g1 \<noteq> g2"
  proof
    assume "g1 = g2"
    then have "set G \<subseteq> {g1}" using sG by auto
    then have "card (set G) \<le> card {g1}" by (intro card_mono) auto
    with cG show False by simp
  qed
  have "set G = {g1, g2}"
  proof (rule card_subset_eq)
    show "finite {g1, g2}" by simp
    show "set G \<subseteq> {g1, g2}" by (rule sG)
    show "card (set G) = card {g1, g2}" using cG neq by simp
  qed
  then have "V g1 = {0, 1}" "V g2 = {0, 1}" using Vfull by auto
  then have "0 \<in> V g1" "1 \<in> V g1" "0 \<in> V g2" "1 \<in> V g2" by auto
  then show ?thesis using neq by (auto simp: V_def)
qed

lemma two_members_length:
  assumes "x \<in> set xs" "y \<in> set xs" "x \<noteq> y" "P x" "P y"
  shows "2 \<le> length (filter P xs)"
proof -
  have "{x, y} \<subseteq> set (filter P xs)" using assms by auto
  then have "card {x, y} \<le> card (set (filter P xs))" by (intro card_mono) auto
  also have "\<dots> \<le> length (filter P xs)" by (rule card_length)
  finally show ?thesis using assms(3) by simp
qed

lemma reshape_2_2_raises:
  "length xs \<noteq> 4 \<Longrightarrow> reshape_2_2 xs = Inl (ValueError ''cannot reshape array into shape (2,2)'')"
  by (auto simp: reshape_2_2_def split: list.splits)

lemma counts_small_subgroup_raise:
  fixes key :: "row \<Rightarrow> ('k::linorder) option"
  assumes grp: "list_all (\<lambda>(i, r). key r = None \<or> key r = Some g1 \<or> key r = Some g2) df"
    and small: "length (filter (\<lambda>(i, r). key r = Some g1) df) < 2
       \<or> length (filter (\<lambda>(i, r). key r = Some g2) df) < 2
       \<or> length (filter (\<lambda>(i, r). key r \<noteq> None \<and> CSRSS_Either r = 0) df) < 2
       \<or> length (filter (\<lambda>(i, r). key r \<noteq> None \<and> CSRSS_Either r = 1) df) < 2"
  shows "reshape_2_2 (groupby_value_counts (map (\<lambda>(i, r). key r) df) (map (\<lambda>(i, r). CSRSS_Either r) df))
    = Inl (ValueError ''cannot reshape array into shape (2,2)'')"
proof (rule reshape_2_2_raises, rule notI)
  let ?keys = "map (\<lambda>(i, r). key r) df" and ?vals = "map (\<lambda>(i, r). CSRSS_Either r) df"
  assume four: "length (groupby_value_counts ?keys ?vals) = 4"
  have vals: "set ?vals \<subseteq> {0, 1}"
  proof
    fix x assume "x \<in> set ?vals"
    then obtain i r where "x = CSRSS_Either r" by auto
    then show "x \<in> {0, 1}" using CSRSS_Either_01 [of r] by auto
  qed
  have keys: "set ?keys \<subseteq> {None, Some g1, Some g2}"
    using grp by (auto simp: list_all_iff)
  note cells = gvc_four_cells [OF vals keys four]
  have z: "zip ?keys ?vals = map (\<lambda>(i, r). (key r, CSRSS_Either r)) df"
    by (induction df) auto
  have ex: "\<exists>i r. (i, r) \<in> set df \<and> key r = Some g \<and> CSRSS_Either r = e"
    if "(Some g, e) \<in> set (zip ?keys ?vals)" for g e
    using that unfolding z by force
  obtain i10 r10 where a: "(i10, r10) \<in> set df" "key r10 = Some g1" "CSRSS_Either r10 = 0"
    using ex cells by blast
  obtain i11 r11 where b: "(i11, r11) \<in> set df" "key r11 = Some g1" "CSRSS_Either r11 = 1"
    using ex cells by blast
  obtain i20 r20 where c: "(i20, r20) \<in> set df" "key r20 = Some g2" "CSRSS_Either r20 = 0"
    using ex cells by blast
  obtain i21 r21 where d: "(i21, r21) \<in> set df" "key r21 = Some g2" "CSRSS_Either r21 = 1"
    using ex cells by blast
  have "2 \<le> length (filter (\<lambda>(i, r). key r = Some g1) df)"
    using a b by (intro two_members_length [of "(i10, r10)" _ "(i11, r11)"]) auto
  moreover have "2 \<le> length (filter (\<lambda>(i, r). key r = Some g2) df)"
    using c d by (intro two_members_length [of "(i20, r20)" _ "(i21, r21)"]) auto
  moreover have "2 \<le> length (filter (\<lambda>(i, r). key r \<noteq> None \<and> CSRSS_Either r = 0) df)"
    using a c cells by (intro two_members_length [of "(i10, r10)" _ "(i20, r20)"]) auto
  moreover have "2 \<le> length (filter (\<lambda>(i, r). key r \<noteq> None \<and> CSRSS_Either r = 1) df)"
    using b d cells by (intro two_members_length [of "(i11, r11)" _ "(i21, r21)"]) auto
  ultimately show False using small by linarith
qed

lemma chi2_small_subgroup_raises:
  "(list_all (\<lambda>(i, r). D_GENDER_DESC r = None \<or> D_GENDER_DESC r = Some g1
        \<or> D_GENDER_DESC r = Some g2) df
     \<and> (length (filter (\<lambda>(i, r). D_GENDER_DESC r = Some g1) df) < 2
        \<or> length (filter (\<lambda>(i, r). D_GENDER_DESC r = Some g2) df) < 2
        \<or> length (filter (\<lambda>(i, r). D_GENDER_DESC r \<noteq> None \<and> CSRSS_Either r = 0) df) < 2
        \<or> length (filter (\<lambda>(i, r). D_GENDER_DESC r \<noteq> None \<and> CSRSS_Either r = 1) df) < 2)
     \<longrightarrow> chi2_gender df = Inl (ValueError ''cannot reshape array into shape (2,2)''))
   \<and> (length (filter (\<lambda>(i, r). ICD_TN r = 0) df) < 2
        \<or> length (filter (\<lambda>(i, r). ICD_TN r = 1) df) < 2
        \<or> length (filter (\<lambda>(i, r). CSRSS_Either r = 0) df) < 2
        \<or> length (filter (\<lambda>(i, r). CSRSS_Either r = 1) df) < 2
     \<longrightarrow> chi2_tn df = Inl (ValueError ''cannot reshape array into shape (2,2)''))"
proof (intro conjI impI)
  assume h: "list_all (\<lambda>(i, r). D_GENDER_DESC r = None \<or> D_GENDER_DESC r = Some g1
        \<or> D_GENDER_DESC r = Some g2) df
     \<and> (length (filter (\<lambda>(i, r). D_GENDER_DESC r = Some g1) df) < 2
        \<or> length (filter (\<lambda>(i, r). D_GENDER_DESC r = Some g2) df) < 2
        \<or> length (filter (\<lambda>(i, r). D_GENDER_DESC r \<noteq> None \<and> CSRSS_Either r = 0) df) < 2
        \<or> length (filter (\<lambda>(i, r). D_GENDER_DESC r \<noteq> None \<and> CSRSS_Either r = 1) df) < 2)"
  have "csrss_counts_gender df = Inl (ValueError ''cannot reshape array into shape (2,2)'')"
    unfolding csrss_counts_gender_def
    using h by (intro counts_small_subgroup_raise [of D_GENDER_DESC g1 g2]) blast+
  then show "chi2_gender df = Inl (ValueError ''cannot reshape array into shape (2,2)'')"
    by (simp add: chi2_gender_def)
next
  assume h: "length (filter (\<lambda>(i, r). ICD_TN r = 0) df) < 2
        \<or> length (filter (\<lambda>(i, r). ICD_TN r = 1) df) < 2
        \<or> length (filter (\<lambda>(i, r). CSRSS_Either r = 0) df) < 2
        \<or> length (filter (\<lambda>(i, r). CSRSS_Either r = 1) df) < 2"
  have g: "list_all (\<lambda>(i, r). Some (ICD_TN r) = None \<or> Some (ICD_TN r) = Some 0
      \<or> Some (ICD_TN r) = Some 1) df"
    by (auto simp: list_all_iff ICD_TN_def)
  have "csrss_counts_tn df = Inl (ValueError ''cannot reshape array into shape (2,2)'')"
    unfolding csrss_counts_tn_def
    using h by (intro counts_small_subgroup_raise [of "\<lambda>r. Some (ICD_TN r)" 0 1, OF g]) simp
  then show "chi2_tn df = Inl (ValueError ''cannot reshape array into shape (2,2)'')"
    by (simp add: chi2_tn_def)
qed

subsection \<open>C3: which rows the statistics read\<close>

text \<open>
  C3, as the specification states it, fails. The demographics cell and the C-SSRS cells run
  before the rows with missing answers are flagged, on the loaded frame: in \<open>df_two\<close>
  the second row has a missing answer, and the number of entries, the number of women,
  the diagnosis count and the either-flag proportion of the frame differ from those of
  the filtered rows.
\<close>

theorem statistics_rows_counterexample:
  "n_entries df_two = 2 \<and> n_entries (ml_df df_two) = 1
   \<and> n_female df_two = 2 \<and> n_female (ml_df df_two) = 1
   \<and> dx_counts df_two ''AFP'' = 1 \<and> dx_counts (ml_df df_two) ''AFP'' = 0
   \<and> either_proportion df_two = Some 50 \<and> either_proportion (ml_df df_two) = Some 100"
  unfolding ml_df_df_two
  by (simp add: df_two_def n_entries_def n_female_def dx_counts_def value_counts_entry_def either_proportion_def
      sample_row_def sample_row_missing_def ICD_Clean_def ICD_map_def ICD_table_def series_map_def
      CSRSS_Either_def CSRSS_Thoughts_def CSRSS_Behaviors_def CSRSS_map_def sum_skipna_def)

lemma count_rows_filter: "count_rows P df = length (filter (\<lambda>(i, r). P r) df)"
proof -
  have "length (filter (\<lambda>(i, r). P r) df) = card {j. j < length df \<and> (\<lambda>(i, r). P r) (df ! j)}"
    by (rule length_filter_conv_card)
  also have "\<dots> = card {j. j < length df \<and> P (snd (df ! j))}"
    by (simp add: case_prod_unfold)
  also have "\<dots> = card (set (filter (\<lambda>j. P (snd (df ! j))) [0..<length df]))"
    by (rule arg_cong [where f = card]) auto
  also have "\<dots> = length (filter (\<lambda>j. P (snd (df ! j))) [0..<length df])"
    by (rule distinct_card) simp
  finally show ?thesis by (simp add: count_rows_def)
qed

lemma count_rows_True: "count_rows (\<lambda>r. True) df = length df"
  by (simp add: count_rows_def)

lemma ml_df_cohort_rows:
  assumes "distinct (map fst df)"
  shows "ml_df df = cohort_rows df"
proof -
  have "(i \<notin> set (amb_df_missing df)) = (\<not> isnull_any amb_any (amb r))" if m: "(i, r) \<in> set df" for i r
  proof
    assume "i \<notin> set (amb_df_missing df)"
    moreover have "(i, amb r) \<in> set (select_amb df)" using m by (force simp: select_amb_def)
    ultimately show "\<not> isnull_any amb_any (amb r)"
      using flag_missing_mem [of i "amb r" "select_amb df" amb_any]
      by (auto simp: amb_df_missing_def)
  next
    assume c: "\<not> isnull_any amb_any (amb r)"
    show "i \<notin> set (amb_df_missing df)"
    proof
      assume "i \<in> set (amb_df_missing df)"
      then obtain r' where r': "(i, r') \<in> set df" "isnull_any amb_any (amb r')"
        by (auto simp: amb_df_missing_def flag_missing_def select_amb_def)
      from eq_key_imp_eq_value [OF assms m r'(1)] have "r = r'" .
      with c r'(2) show False by simp
    qed
  qed
  then show ?thesis
    unfolding ml_df_def drop_labels_def cohort_rows_def
    by (intro filter_cong) auto
qed

lemma domain_series_cohort:
  assumes d: "distinct (map fst df)" and c: "set cols \<subseteq> set amb_any" "cols \<noteq> []"
  shows "dropna (domain_mean cols (amb_df df))
    = map (\<lambda>(i, r). (i, arithmetic_mean_of_items r cols)) (cohort_rows df)"
proof -
  have "amb_df df = select_amb (cohort_rows df)"
    using select_amb_ml_df [of df] ml_df_cohort_rows [OF d] by simp
  then show ?thesis
    unfolding domain_df_eq [OF c]
    by (simp add: select_amb_def arithmetic_mean_of_items_def case_prod_unfold comp_def)
qed

lemma bool_index_map:
  "bool_index (map (\<lambda>x. p (e x)) xs) (map (\<lambda>x. (fst x, f x)) xs)
    = Inr (map f (filter (\<lambda>x. p (e x)) xs))"
proof -
  have "map (snd \<circ> snd) (filter fst (zip (map (\<lambda>x. p (e x)) xs) (map (\<lambda>x. (fst x, f x)) xs)))
    = map f (filter (\<lambda>x. p (e x)) xs)"
    by (induction xs) auto
  then show ?thesis by (simp add: bool_index_def)
qed

lemma subgroup_cohort:
  assumes d: "distinct (map fst df)" and c: "set cols \<subseteq> set amb_any" "cols \<noteq> []"
  shows "bool_index (map (\<lambda>s. s = v) (is_sui df)) (dropna (domain_mean cols (amb_df df)))
    = Inr (map (\<lambda>(i, r). arithmetic_mean_of_items r cols)
            (filter (\<lambda>(i, r). CSRSS_Either r = v) (cohort_rows df)))"
proof -
  have s: "is_sui df = map (\<lambda>x. CSRSS_Either (snd x)) (cohort_rows df)"
    using ml_df_cohort_rows [OF d] by (simp add: is_sui_ml_df case_prod_unfold)
  have m: "dropna (domain_mean cols (amb_df df))
    = map (\<lambda>x. (fst x, arithmetic_mean_of_items (snd x) cols)) (cohort_rows df)"
    unfolding domain_series_cohort [OF d c] by (simp add: case_prod_unfold)
  show ?thesis
    unfolding s m map_map comp_def
    using bool_index_map [of "\<lambda>s. s = v" "\<lambda>x. CSRSS_Either (snd x)" "cohort_rows df"
        "\<lambda>x. arithmetic_mean_of_items (snd x) cols"]
    by (simp add: case_prod_unfold)
qed

lemma n_patients_card: "n_patients df = card (PAT_ID ` snd ` set df)"
proof -
  have "set (map (\<lambda>(i, r). PAT_ID r) df) = PAT_ID ` snd ` set df" by force
  then show ?thesis
    unfolding n_patients_def by (metis length_remdups_card_conv)
qed

lemma either_sum:
  "sum_list (map (\<lambda>(i, r). real (CSRSS_Either r)) df)
    = real (length (filter (\<lambda>(i, r). CSRSS_Either r = 1) df))"
proof (induction df)
  case Nil
  then show ?case by simp
next
  case (Cons x df)
  obtain i r where x: "x = (i, r)" by (cases x)
  show ?case using Cons CSRSS_Either_01 [of r] x by auto
qed

lemma flag_mean:
  assumes "\<And>x. x \<in> set xs \<Longrightarrow> f x = None \<or> f x = Some 0 \<or> f x = Some (1::real)"
  shows "mean_skipna (map f xs)
    = (if length (filter (\<lambda>x. f x \<noteq> None) xs) = 0 then None
       else Some (real (length (filter (\<lambda>x. f x = Some 1) xs))
                  / real (length (filter (\<lambda>x. f x \<noteq> None) xs))))"
proof -
  have p: "List.map_filter (\<lambda>c. c) (map f xs) = map (\<lambda>x. the (f x)) (filter (\<lambda>x. f x \<noteq> None) xs)"
    by (induction xs) (auto simp: List.map_filter_simps)
  have s: "sum_list (map (\<lambda>x. the (f x)) (filter (\<lambda>x. f x \<noteq> None) xs))
    = real (length (filter (\<lambda>x. f x = Some 1) xs))"
    using assms
  proof (induction xs)
    case Nil
    then show ?case by simp
  next
    case (Cons x xs)
    have "f x = None \<or> f x = Some 0 \<or> f x = Some 1" using Cons.prems by simp
    moreover have "sum_list (map (\<lambda>x. the (f x)) (filter (\<lambda>x. f x \<noteq> None) xs))
      = real (length (filter (\<lambda>x. f x = Some 1) xs))"
      using Cons by simp
    ultimately show ?case by auto
  qed
  show ?thesis unfolding mean_skipna_def p Let_def s by simp
qed

lemma sum_list_insort_key:
  fixes g :: "'a \<Rightarrow> nat"
  shows "sum_list (map g (insort_key f x xs)) = g x + sum_list (map g xs)"
  by (induction xs) auto

lemma sum_list_sort_key:
  fixes g :: "'a \<Rightarrow> nat"
  shows "sum_list (map g (sort_key f xs)) = sum_list (map g xs)"
  by (induction xs) (auto simp: sum_list_insort_key)

lemma sum_group_value_counts: "sum_list (map snd (group_value_counts vs)) = length vs"
proof -
  have "sum_list (map snd (group_value_counts vs))
      = sum_list (map (count_list vs) (remdups vs))"
    unfolding group_value_counts_def by (simp add: comp_def sum_list_sort_key)
  also have "\<dots> = sum (count_list vs) (set (remdups vs))"
    by (rule sum_list_distinct_conv_sum_set) simp
  also have "\<dots> = length vs"
    by (simp add: sum_count_set)
  finally show ?thesis .
qed

lemma set_group_value_counts:
  "set (map snd (group_value_counts vs)) = count_list vs ` set vs"
  by (force simp: group_value_counts_def)

lemma sum_group_lengths:
  assumes "finite S" "\<And>g v. (Some g, v) \<in> set ps \<Longrightarrow> g \<in> S"
  shows "(\<Sum>g\<in>S. length (filter (\<lambda>(k, v). k = Some g) ps))
    = length (filter (\<lambda>(k, v). k \<noteq> None) ps)"
  using assms(2)
proof (induction ps)
  case Nil
  then show ?case by simp
next
  case (Cons p ps)
  obtain k v where p: "p = (k, v)" by (cases p)
  have ih: "(\<Sum>g\<in>S. length (filter (\<lambda>(k, v). k = Some g) ps))
    = length (filter (\<lambda>(k, v). k \<noteq> None) ps)"
    by (rule Cons.IH) (use Cons.prems in auto)
  show ?case
  proof (cases k)
    case None
    then show ?thesis using ih p by simp
  next
    case (Some g0)
    then have g0: "g0 \<in> S" using Cons.prems [of g0 v] p by simp
    have "(\<Sum>g\<in>S. length (filter (\<lambda>(k, v). k = Some g) (p # ps)))
      = (\<Sum>g\<in>S. (if g0 = g then 1 else 0) + length (filter (\<lambda>(k, v). k = Some g) ps))"
      using p Some by (intro sum.cong) auto
    also have "\<dots> = (\<Sum>g\<in>S. if g0 = g then 1 else 0)
        + (\<Sum>g\<in>S. length (filter (\<lambda>(k, v). k = Some g) ps))"
      by (rule sum.distrib)
    also have "(\<Sum>g\<in>S. if g0 = g then 1 else 0) = (1::nat)"
      using assms(1) g0 by simp
    finally show ?thesis using ih p Some by simp
  qed
qed

lemma sum_list_concat_map:
  fixes f :: "'a \<Rightarrow> nat list"
  shows "sum_list (concat (map f xs)) = sum_list (map (\<lambda>x. sum_list (f x)) xs)"
  by (induction xs) auto

lemma sum_groupby_value_counts:
  fixes keys :: "('k::linorder) option list"
  shows "sum_list (groupby_value_counts keys vals)
    = length (filter (\<lambda>(k, v). k \<noteq> None) (zip keys vals))"
proof -
  define G where "G = sort (remdups (List.map_filter (\<lambda>k. k) keys))"
  have "sum_list (groupby_value_counts keys vals)
    = sum_list (map (\<lambda>g. length (filter (\<lambda>(k, v). k = Some g) (zip keys vals))) G)"
    unfolding groupby_value_counts_def G_def [symmetric] sum_list_concat_map
    by (simp add: sum_group_value_counts)
  also have "\<dots> = (\<Sum>g\<in>set G. length (filter (\<lambda>(k, v). k = Some g) (zip keys vals)))"
    by (rule sum_list_distinct_conv_sum_set) (simp add: G_def)
  also have "\<dots> = length (filter (\<lambda>(k, v). k \<noteq> None) (zip keys vals))"
  proof (rule sum_group_lengths)
    show "finite (set G)" by simp
    fix g v assume "(Some g, v) \<in> set (zip keys vals)"
    then have "Some g \<in> set keys" by (rule set_zip_leftD)
    then show "g \<in> set G" by (simp add: G_def set_map_filter_id)
  qed
  finally show ?thesis .
qed

lemma set_groupby_value_counts:
  fixes keys :: "('k::linorder) option list"
  assumes "n \<in> set (groupby_value_counts keys vals)"
  shows "\<exists>g e. n = length (filter (\<lambda>(k, v). k = Some g \<and> v = e) (zip keys vals))"
proof -
  from assms obtain g where
    "n \<in> set (map snd (group_value_counts (map snd (filter (\<lambda>(k, v). k = Some g) (zip keys vals)))))"
    by (auto simp: groupby_value_counts_def)
  then obtain e where
    "n = count_list (map snd (filter (\<lambda>(k, v). k = Some g) (zip keys vals))) e"
    unfolding set_group_value_counts by auto
  then have "n = length (filter (\<lambda>(k, v). k = Some g \<and> v = e) (zip keys vals))"
    by (simp add: count_list_eq_length_filter filter_map comp_def case_prod_unfold conj_commute eq_commute)
  then show ?thesis by blast
qed

lemma zip_columns:
  "zip (map (\<lambda>(i, r). f r) df) (map (\<lambda>(i, r). h r) df) = map (\<lambda>(i, r). (f r, h r)) df"
  by (induction df) auto

lemma counts_read_all_rows:
  fixes key :: "row \<Rightarrow> ('k::linorder) option"
  assumes "reshape_2_2 (groupby_value_counts (map (\<lambda>(i, r). key r) df)
      (map (\<lambda>(i, r). CSRSS_Either r) df)) = Inr t"
  shows "table_total t = count_rows (\<lambda>r. key r \<noteq> None) df
    \<and> (\<forall>n \<in> {fst (fst t), snd (fst t), fst (snd t), snd (snd t)}.
          \<exists>g e. n = contingency_cell key df g e)"
proof -
  let ?xs = "groupby_value_counts (map (\<lambda>(i, r). key r) df) (map (\<lambda>(i, r). CSRSS_Either r) df)"
  obtain a b c d where t: "t = ((a, b), (c, d))" by (metis prod.collapse)
  from assms have xs: "?xs = [a, b, c, d]"
    unfolding t by (auto simp: reshape_2_2_def split: list.splits)
  have "table_total t = sum_list ?xs" unfolding xs t by (simp add: table_total_def)
  also have "\<dots> = length (filter (\<lambda>(i, r). key r \<noteq> None) df)"
    unfolding sum_groupby_value_counts zip_columns
    by (simp add: filter_map comp_def case_prod_unfold)
  finally have tot: "table_total t = count_rows (\<lambda>r. key r \<noteq> None) df"
    by (simp add: count_rows_filter)
  have cell: "\<exists>g e. n = contingency_cell key df g e" if "n \<in> set ?xs" for n
  proof -
    from set_groupby_value_counts [OF that] obtain g e where
      "n = length (filter (\<lambda>(k, v). k = Some g \<and> v = e)
             (zip (map (\<lambda>(i, r). key r) df) (map (\<lambda>(i, r). CSRSS_Either r) df)))"
      by blast
    then have "n = contingency_cell key df g e"
      unfolding zip_columns contingency_cell_def
      by (simp add: filter_map comp_def case_prod_unfold)
    then show ?thesis by blast
  qed
  show ?thesis using tot cell unfolding xs t by simp
qed

lemma flag_cases_thoughts:
  "CSRSS_Thoughts r = None \<or> CSRSS_Thoughts r = Some 0 \<or> CSRSS_Thoughts r = Some 1"
  unfolding CSRSS_Thoughts_def by (rule series_map_CSRSS_cases)

lemma flag_cases_behaviors:
  "CSRSS_Behaviors r = None \<or> CSRSS_Behaviors r = Some 0 \<or> CSRSS_Behaviors r = Some 1"
  unfolding CSRSS_Behaviors_def by (rule series_map_CSRSS_cases)

lemma flag_proportion:
  assumes "\<And>r. f r = None \<or> f r = Some 0 \<or> f r = Some (1::real)"
  shows "map_option (\<lambda>m. m * 100) (mean_skipna (map (\<lambda>(i, r). f r) df))
    = (if count_rows (\<lambda>r. f r \<noteq> None) df = 0 then None
       else Some (real (count_rows (\<lambda>r. f r = Some 1) df)
                  / real (count_rows (\<lambda>r. f r \<noteq> None) df) * 100))"
proof -
  have "mean_skipna (map (\<lambda>x. f (snd x)) df)
    = (if length (filter (\<lambda>x. f (snd x) \<noteq> None) df) = 0 then None
       else Some (real (length (filter (\<lambda>x. f (snd x) = Some 1) df))
                  / real (length (filter (\<lambda>x. f (snd x) \<noteq> None) df))))"
    by (rule flag_mean) (use assms in auto)
  then show ?thesis
    by (simp add: count_rows_filter case_prod_unfold)
qed

text \<open>
  C3, amended. For a loaded frame with distinct index labels, which is what \<^verbatim>\<open>read_csv\<close>
  gives: the frame of the machine-learning pipelines, the BPI-Facial frame, the three
  domain series, the either-flag and TN arrays, and the two subgroup samples of every
  domain that go into the Levene and Welch tests are computed from exactly the Cohort,
  the rows of the loaded frame without a missing answer, in their order. The number of
  entries, the number of unique patients, the number and the proportion of women, the
  entries of the four frequency tables, the three screening-flag proportions and the two
  chi-square tables are computed from all rows of the loaded frame: the counts are counts
  over all its positions, and a chi-square table sums to the number of all loaded rows
  with a group value, each of its cells being a cell count over all loaded rows.
\<close>

theorem statistics_rows:
  assumes "distinct (map fst df)"
  shows "ml_df df = cohort_rows df
   \<and> amb_df df = select_amb (cohort_rows df)
   \<and> amb_painintensity_df df
       = map (\<lambda>(i, r). (i, arithmetic_mean_of_items r amb_painintensity)) (cohort_rows df)
   \<and> amb_interference_df df
       = map (\<lambda>(i, r). (i, arithmetic_mean_of_items r amb_interference)) (cohort_rows df)
   \<and> amb_specific_df df
       = map (\<lambda>(i, r). (i, arithmetic_mean_of_items r amb_specific)) (cohort_rows df)
   \<and> is_sui df = map (\<lambda>(i, r). CSRSS_Either r) (cohort_rows df)
   \<and> is_tn df = map (\<lambda>(i, r). ICD_TN r) (cohort_rows df)
   \<and> painintensity_sui df
       = Inr (map (\<lambda>(i, r). arithmetic_mean_of_items r amb_painintensity)
               (filter (\<lambda>(i, r). CSRSS_Either r = 1) (cohort_rows df)))
   \<and> painintensity_notsui df
       = Inr (map (\<lambda>(i, r). arithmetic_mean_of_items r amb_painintensity)
               (filter (\<lambda>(i, r). CSRSS_Either r = 0) (cohort_rows df)))
   \<and> interference_sui df
       = Inr (map (\<lambda>(i, r). arithmetic_mean_of_items r amb_interference)
               (filter (\<lambda>(i, r). CSRSS_Either r = 1) (cohort_rows df)))
   \<and> interference_notsui df
       = Inr (map (\<lambda>(i, r). arithmetic_mean_of_items r amb_interference)
               (filter (\<lambda>(i, r). CSRSS_Either r = 0) (cohort_rows df)))
   \<and> specific_sui df
       = Inr (map (\<lambda>(i, r). arithmetic_mean_of_items r amb_specific)
               (filter (\<lambda>(i, r). CSRSS_Either r = 1) (cohort_rows df)))
   \<and> specific_notsui df
       = Inr (map (\<lambda>(i, r). arithmetic_mean_of_items r amb_specific)
               (filter (\<lambda>(i, r). CSRSS_Either r = 0) (cohort_rows df)))
   \<and> n_entries df = count_rows (\<lambda>r. True) df
   \<and> n_patients df = card (PAT_ID ` snd ` set df)
   \<and> n_female df = count_rows (\<lambda>r. D_GENDER_DESC r = Some ''Female'') df
   \<and> female_proportion df
       = (if df = [] then Inl ZeroDivisionError
          else Inr (real (count_rows (\<lambda>r. D_GENDER_DESC r = Some ''Female'') df)
                    / real (card (PAT_ID ` snd ` set df)) * 100))
   \<and> race_counts df v = count_rows (\<lambda>r. D_RACE_DESC r = Some v) df
   \<and> ethnicity_counts df v = count_rows (\<lambda>r. D_ETHNICITY_DESC r = Some v) df
   \<and> insurance_counts df v = count_rows (\<lambda>r. D_FINAN_CLASS_DESC r = Some v) df
   \<and> dx_counts df v = count_rows (\<lambda>r. ICD_Clean r = Some v) df
   \<and> behaviors_proportion df
       = (if count_rows (\<lambda>r. CSRSS_Behaviors r \<noteq> None) df = 0 then None
          else Some (real (count_rows (\<lambda>r. CSRSS_Behaviors r = Some 1) df)
                     / real (count_rows (\<lambda>r. CSRSS_Behaviors r \<noteq> None) df) * 100))
   \<and> thoughts_proportion df
       = (if count_rows (\<lambda>r. CSRSS_Thoughts r \<noteq> None) df = 0 then None
          else Some (real (count_rows (\<lambda>r. CSRSS_Thoughts r = Some 1) df)
                     / real (count_rows (\<lambda>r. CSRSS_Thoughts r \<noteq> None) df) * 100))
   \<and> either_proportion df
       = (if df = [] then None
          else Some (real (count_rows (\<lambda>r. CSRSS_Either r = 1) df)
                     / real (count_rows (\<lambda>r. True) df) * 100))
   \<and> (\<forall>t. csrss_counts_gender df = Inr t \<longrightarrow>
         table_total t = count_rows (\<lambda>r. D_GENDER_DESC r \<noteq> None) df
         \<and> (\<forall>n \<in> {fst (fst t), snd (fst t), fst (snd t), snd (snd t)}.
               \<exists>g e. n = contingency_cell D_GENDER_DESC df g e))
   \<and> (\<forall>t. csrss_counts_tn df = Inr t \<longrightarrow>
         table_total t = count_rows (\<lambda>r. True) df
         \<and> (\<forall>n \<in> {fst (fst t), snd (fst t), fst (snd t), snd (snd t)}.
               \<exists>g e. n = contingency_cell (\<lambda>r. Some (ICD_TN r)) df g e))"
proof -
  note d = assms
  have c1: "ml_df df = cohort_rows df" by (rule ml_df_cohort_rows [OF d])
  have c2: "amb_df df = select_amb (cohort_rows df)"
    using select_amb_ml_df [of df] c1 by simp
  have c3: "amb_painintensity_df df
       = map (\<lambda>(i, r). (i, arithmetic_mean_of_items r amb_painintensity)) (cohort_rows df)"
    unfolding amb_painintensity_df_def
    by (rule domain_series_cohort [OF d amb_any_domains(1) amb_domains_nonempty(1)])
  have c4: "amb_interference_df df
       = map (\<lambda>(i, r). (i, arithmetic_mean_of_items r amb_interference)) (cohort_rows df)"
    unfolding amb_interference_df_def
    by (rule domain_series_cohort [OF d amb_any_domains(2) amb_domains_nonempty(2)])
  have c5: "amb_specific_df df
       = map (\<lambda>(i, r). (i, arithmetic_mean_of_items r amb_specific)) (cohort_rows df)"
    unfolding amb_specific_df_def
    by (rule domain_series_cohort [OF d amb_any_domains(3) amb_domains_nonempty(3)])
  have c6: "is_sui df = map (\<lambda>(i, r). CSRSS_Either r) (cohort_rows df)"
    using c1 by (simp add: is_sui_ml_df)
  have c7: "is_tn df = map (\<lambda>(i, r). ICD_TN r) (cohort_rows df)"
    using c1 by (simp add: is_tn_def ml_df_def)
  have c8: "painintensity_sui df
       = Inr (map (\<lambda>(i, r). arithmetic_mean_of_items r amb_painintensity)
               (filter (\<lambda>(i, r). CSRSS_Either r = 1) (cohort_rows df)))"
    unfolding painintensity_sui_def amb_painintensity_df_def
    by (rule subgroup_cohort [OF d amb_any_domains(1) amb_domains_nonempty(1)])
  have c9: "painintensity_notsui df
       = Inr (map (\<lambda>(i, r). arithmetic_mean_of_items r amb_painintensity)
               (filter (\<lambda>(i, r). CSRSS_Either r = 0) (cohort_rows df)))"
    unfolding painintensity_notsui_def amb_painintensity_df_def
    by (rule subgroup_cohort [OF d amb_any_domains(1) amb_domains_nonempty(1)])
  have c10: "interference_sui df
       = Inr (map (\<lambda>(i, r). arithmetic_mean_of_items r amb_interference)
               (filter (\<lambda>(i, r). CSRSS_Either r = 1) (cohort_rows df)))"
    unfolding interference_sui_def amb_interference_df_def
    by (rule subgroup_cohort [OF d amb_any_domains(2) amb_domains_nonempty(2)])
  have c11: "interference_notsui df
       = Inr (map (\<lambda>(i, r). arithmetic_mean_of_items r amb_interference)
               (filter (\<lambda>(i, r). CSRSS_Either r = 0) (cohort_rows df)))"
    unfolding interference_notsui_def amb_interference_df_def
    by (rule subgroup_cohort [OF d amb_any_domains(2) amb_domains_nonempty(2)])
  have c12: "specific_sui df
       = Inr (map (\<lambda>(i, r). arithmetic_mean_of_items r amb_specific)
               (filter (\<lambda>(i, r). CSRSS_Either r = 1) (cohort_rows df)))"
    unfolding specific_sui_def amb_specific_df_def
    by (rule subgroup_cohort [OF d amb_any_domains(3) amb_domains_nonempty(3)])
  have c13: "specific_notsui df
       = Inr (map (\<lambda>(i, r). arithmetic_mean_of_items r amb_specific)
               (filter (\<lambda>(i, r). CSRSS_Either r = 0) (cohort_rows df)))"
    unfolding specific_notsui_def amb_specific_df_def
    by (rule subgroup_cohort [OF d amb_any_domains(3) amb_domains_nonempty(3)])
  have a1: "n_entries df = count_rows (\<lambda>r. True) df"
    by (simp add: n_entries_def count_rows_True)
  have a2: "n_patients df = card (PAT_ID ` snd ` set df)" by (rule n_patients_card)
  have a3: "n_female df = count_rows (\<lambda>r. D_GENDER_DESC r = Some ''Female'') df"
    by (simp add: n_female_def count_rows_filter)
  have a4: "female_proportion df
       = (if df = [] then Inl ZeroDivisionError
          else Inr (real (count_rows (\<lambda>r. D_GENDER_DESC r = Some ''Female'') df)
                    / real (card (PAT_ID ` snd ` set df)) * 100))"
  proof -
    have "n_patients df = 0 \<longleftrightarrow> df = []"
      unfolding a2 by (simp add: card_eq_0_iff)
    then show ?thesis unfolding female_proportion_def a3 [symmetric] a2 [symmetric] by simp
  qed
  have a5: "race_counts df v = count_rows (\<lambda>r. D_RACE_DESC r = Some v) df"
    by (simp add: race_counts_def value_counts_entry_def count_rows_filter)
  have a6: "ethnicity_counts df v = count_rows (\<lambda>r. D_ETHNICITY_DESC r = Some v) df"
    by (simp add: ethnicity_counts_def value_counts_entry_def count_rows_filter)
  have a7: "insurance_counts df v = count_rows (\<lambda>r. D_FINAN_CLASS_DESC r = Some v) df"
    by (simp add: insurance_counts_def value_counts_entry_def count_rows_filter)
  have a8: "dx_counts df v = count_rows (\<lambda>r. ICD_Clean r = Some v) df"
    by (simp add: dx_counts_def value_counts_entry_def count_rows_filter)
  have a9: "behaviors_proportion df
       = (if count_rows (\<lambda>r. CSRSS_Behaviors r \<noteq> None) df = 0 then None
          else Some (real (count_rows (\<lambda>r. CSRSS_Behaviors r = Some 1) df)
                     / real (count_rows (\<lambda>r. CSRSS_Behaviors r \<noteq> None) df) * 100))"
    unfolding behaviors_proportion_def by (rule flag_proportion) (rule flag_cases_behaviors)
  have a10: "thoughts_proportion df
       = (if count_rows (\<lambda>r. CSRSS_Thoughts r \<noteq> None) df = 0 then None
          else Some (real (count_rows (\<lambda>r. CSRSS_Thoughts r = Some 1) df)
                     / real (count_rows (\<lambda>r. CSRSS_Thoughts r \<noteq> None) df) * 100))"
    unfolding thoughts_proportion_def by (rule flag_proportion) (rule flag_cases_thoughts)
  have a11: "either_proportion df
       = (if df = [] then None
          else Some (real (count_rows (\<lambda>r. CSRSS_Either r = 1) df)
                     / real (count_rows (\<lambda>r. True) df) * 100))"
    by (simp add: either_proportion_def either_sum count_rows_filter count_rows_True)
  have a12: "\<forall>t. csrss_counts_gender df = Inr t \<longrightarrow>
         table_total t = count_rows (\<lambda>r. D_GENDER_DESC r \<noteq> None) df
         \<and> (\<forall>n \<in> {fst (fst t), snd (fst t), fst (snd t), snd (snd t)}.
               \<exists>g e. n = contingency_cell D_GENDER_DESC df g e)"
    unfolding csrss_counts_gender_def using counts_read_all_rows [of D_GENDER_DESC df] by blast
  have a13: "\<forall>t. csrss_counts_tn df = Inr t \<longrightarrow>
         table_total t = count_rows (\<lambda>r. True) df
         \<and> (\<forall>n \<in> {fst (fst t), snd (fst t), fst (snd t), snd (snd t)}.
               \<exists>g e. n = contingency_cell (\<lambda>r. Some (ICD_TN r)) df g e)"
    unfolding csrss_counts_tn_def using counts_read_all_rows [of "\<lambda>r. Some (ICD_TN r)" df] by simp
  show ?thesis
    by (intro conjI c1 c2 c3 c4 c5 c6 c7 c8 c9 c10 c11 c12 c13 a1 a2 a3 a4 a5 a6 a7 a8 a9 a10 a11 a12 a13)
qed

theorem statistics_rows_witness:
  "distinct (map fst df_two)
   \<and> ml_df df_two = cohort_rows df_two
   \<and> map fst (cohort_rows df_two) = [0]"
proof -
  have d: "distinct (map fst df_two)" by (simp add: df_two_def)
  have m: "ml_df df_two = cohort_rows df_two"
    by (rule statistics_rows [OF d, THEN conjunct1])
  have c: "map fst (cohort_rows df_two) = [0]"
    unfolding m [symmetric] ml_df_df_two by simp
  from d m c show ?thesis by (intro conjI)
qed

subsection \<open>C8: subgroups with fewer than two observations\<close>

text \<open>
  C8 at the frame \<open>df_small\<close>, which has one man and one row with a positive screening
  answer. The chi-square cell for sex raises ValueError: \<^verbatim>\<open>value_counts\<close> has no entry
  for men with a positive answer, and three counts do not reshape to 2 x 2. The table of
  the rows, ((2, 1), (1, 0)), is one that \<^verbatim>\<open>chi2_contingency\<close> accepts. In the same
  frame the subgroup with a positive answer has one pain-intensity score, and Welch's
  t-test returns NaN for it without an exception.
\<close>

theorem small_subgroup_at_df_small:
  "length (filter (\<lambda>(i, r). D_GENDER_DESC r = Some ''Male'') df_small) = 1
   \<and> chi2_gender df_small = Inl (ValueError ''cannot reshape array into shape (2,2)'')
   \<and> contingency_spec D_GENDER_DESC df_small ''Female'' ''Male'' = ((2, 1), (1, 0))
   \<and> chi2_contingency (contingency_spec D_GENDER_DESC df_small ''Female'' ''Male'')
        = Inr (Some 0, 1)
   \<and> painintensity_sui df_small = Inr [1]
   \<and> painintensity_notsui df_small = Inr [1, 1, 1]
   \<and> welch_t [1] [1, 1, 1] = NaN"
proof -
  have chi: "length (filter (\<lambda>(i, r). D_GENDER_DESC r = Some ''Male'') df_small) = 1
   \<and> chi2_gender df_small = Inl (ValueError ''cannot reshape array into shape (2,2)'')
   \<and> contingency_spec D_GENDER_DESC df_small ''Female'' ''Male'' = ((2, 1), (1, 0))
   \<and> chi2_contingency (contingency_spec D_GENDER_DESC df_small ''Female'' ''Male'')
        = Inr (Some 0, 1)"
    by code_simp
  have groups: "painintensity_sui df_small = Inr [1]
   \<and> painintensity_notsui df_small = Inr [1, 1, 1]"
    by code_simp
  have welch: "welch_t [1] [1, 1, 1] = NaN"
    by (simp add: welch_t_def mean_of_def var_ddof1_def)
  from chi groups welch show ?thesis by blast
qed

subsection \<open>C4: the table of the chi-square test\<close>

text \<open>
  C4 at the frame \<open>df_chi\<close>. Most women have a positive screening answer and most men
  do not, so \<^verbatim>\<open>value_counts\<close> lists the count of the positive answers first for the
  women and second for the men: the reshaped array is ((3, 1), (3, 1)), the table of the
  rows is ((1, 3), (3, 1)), and the statistic is 0 where the table of the rows gives 1/2.
\<close>

theorem chi2_gender_table_at_df_chi:
  "csrss_counts_gender df_chi = Inr ((3, 1), (3, 1))
   \<and> contingency_spec D_GENDER_DESC df_chi ''Female'' ''Male'' = ((1, 3), (3, 1))
   \<and> chi2_gender df_chi = Inr (Some 0, 1)
   \<and> chi2_contingency (contingency_spec D_GENDER_DESC df_chi ''Female'' ''Male'') = Inr (Some (1 / 2), 1)"
  by code_simp

subsection \<open>C6: the degrees of freedom printed with Welch's t-test\<close>

text \<open>
  C6 at the frame \<open>df_welch\<close>. The pain-intensity subgroups are [0, 4] and
  [1, 1, 1, 1, 3, 3, 3, 3]; the cell prints 8 degrees of freedom, the sum of the lengths
  minus 2, and the Welch-Satterthwaite degrees of freedom of the two samples are
  5887/5489.
\<close>

theorem reported_dof_at_df_welch:
  "painintensity_sui df_welch = Inr [0, 4]
   \<and> painintensity_notsui df_welch = Inr [1, 1, 1, 1, 3, 3, 3, 3]
   \<and> painintensity_reported_dof df_welch = Inr 8
   \<and> painintensity_welch_dof df_welch = Inr (5887 / 5489)"
  by code_simp

subsection \<open>C9: lowering the decision threshold\<close>

lemma expit_pos_gt_half: "0 < z \<Longrightarrow> 1 / 2 < expit z"
proof -
  assume "0 < z"
  then have "exp (- z) < 1" by simp
  moreover have "0 < exp (- z)" by simp
  ultimately have "1 + exp (- z) < 2" "0 < 1 + exp (- z)" by linarith+
  then show ?thesis unfolding expit_def by (simp add: field_simps)
qed

lemma expit_gt_half_iff: "1 / 2 < expit z \<longleftrightarrow> 0 < z"
proof -
  have p: "0 < 1 + exp (- z)" using exp_gt_zero [of "- z"] by linarith
  have "1 / 2 < expit z \<longleftrightarrow> 1 + exp (- z) < 2"
    unfolding expit_def using p by (simp add: field_simps)
  also have "\<dots> \<longleftrightarrow> exp (- z) < 1" by linarith
  also have "\<dots> \<longleftrightarrow> 0 < z" by simp
  finally show ?thesis .
qed

lemma default_is_half:
  "j < length X_test \<Longrightarrow> (y_pred_default m X_test ! j = 1) = (1 / 2 < y_proba m X_test ! j)"
proof -
  assume j: "j < length X_test"
  obtain i r where x: "X_test ! j = (i, r)" by (cases "X_test ! j")
  show ?thesis using j x expit_gt_half_iff [of "decision_function m r"]
    by (simp add: y_pred_default_def y_proba_def)
qed

lemma default_implies_alt:
  "(if decision_function m r > 0 then 1 else 0) = (1::nat)
    \<Longrightarrow> (if expit (decision_function m r) \<ge> threshold then 1 else 0) = (1::nat)"
  using expit_pos_gt_half [of "decision_function m r"]
  by (auto simp: threshold_def split: if_splits)

lemma count_positive_mono:
  "length (filter (\<lambda>y. y = 1) (y_pred_default m X)) \<le> length (filter (\<lambda>y. y = 1) (y_pred_alt m X))"
proof (induction X)
  case Nil
  then show ?case by (simp add: y_pred_default_def y_pred_alt_def y_proba_def)
next
  case (Cons x X)
  obtain i r where x: "x = (i, r)" by (cases x)
  show ?case
    using Cons default_implies_alt [of m r] x
    by (auto simp: y_pred_default_def y_pred_alt_def y_proba_def split: if_splits)
qed

text \<open>
  C9. For every fitted pipeline and every evaluation frame, the two prediction arrays have
  one entry per row, \<^verbatim>\<open>predict\<close> is positive exactly where the probability is above
  0.5, every row predicted positive by it is predicted positive at the threshold 0.3, and
  so the number of positive predictions at 0.3 is at least the number at 0.5.
\<close>

theorem lower_threshold_keeps_positives:
  "length (y_pred_default m X_test) = length X_test
   \<and> length (y_pred_alt m X_test) = length X_test
   \<and> (\<forall>j < length X_test. (y_pred_default m X_test ! j = 1) = (1 / 2 < y_proba m X_test ! j))
   \<and> (\<forall>j < length X_test. y_pred_default m X_test ! j = 1 \<longrightarrow> y_pred_alt m X_test ! j = 1)
   \<and> length (filter (\<lambda>y. y = 1) (y_pred_default m X_test))
      \<le> length (filter (\<lambda>y. y = 1) (y_pred_alt m X_test))"
proof -
  have "y_pred_default m X_test ! j = 1 \<longrightarrow> y_pred_alt m X_test ! j = 1" if "j < length X_test" for j
  proof -
    obtain i r where x: "X_test ! j = (i, r)" by (cases "X_test ! j")
    show ?thesis
      using that x default_implies_alt [of m r]
      by (simp add: y_pred_default_def y_pred_alt_def y_proba_def)
  qed
  then show ?thesis
    using count_positive_mono [of m X_test] default_is_half [of _ X_test m]
    by (simp add: y_pred_default_def y_pred_alt_def y_proba_def)
qed

theorem lower_threshold_keeps_positives_witness:
  "y_pred_default pipeline_age [(0, sample_row ''Female'' ''TRIGEMINAL NEURALGIA'' None None 1)] ! 0 = 1
   \<and> y_pred_alt pipeline_age [(0, sample_row ''Female'' ''TRIGEMINAL NEURALGIA'' None None 1)] ! 0 = 1"
proof -
  have d: "y_pred_default pipeline_age [(0, sample_row ''Female'' ''TRIGEMINAL NEURALGIA'' None None 1)] ! 0 = 1"
    by (simp add: y_pred_default_def pipeline_age_def decision_function_def sample_row_def)
  show ?thesis
    using d lower_threshold_keeps_positives
      [of pipeline_age "[(0, sample_row ''Female'' ''TRIGEMINAL NEURALGIA'' None None 1)]"]
    by simp
qed

subsection \<open>C10: the silhouette sweep\<close>

lemma euclidean_nonneg: "0 \<le> euclidean x y"
proof -
  have "0 \<le> sum_list (map2 (\<lambda>a b. (a - b)\<^sup>2) x y)"
    by (rule sum_list_nonneg) auto
  then show ?thesis by (simp add: euclidean_def)
qed

lemma dist_sum_nonneg: "0 \<le> dist_sum X labels i l"
  unfolding dist_sum_def by (rule sum_list_nonneg) (auto simp: euclidean_nonneg)

lemma ratio_bound:
  fixes a b :: real
  assumes "0 \<le> a" "0 \<le> b" "max a b \<noteq> 0"
  shows "- 1 \<le> (b - a) / max a b \<and> (b - a) / max a b \<le> 1"
proof -
  have m: "0 < max a b" using assms by (simp add: max_def split: if_splits)
  have "- max a b \<le> b - a" "b - a \<le> max a b" using assms by (simp_all add: max_def)
  then show ?thesis using m by (simp add: field_simps)
qed

lemma min_list_nonneg:
  fixes xs :: "real list"
  assumes "xs \<noteq> []" "\<And>x. x \<in> set xs \<Longrightarrow> 0 \<le> x"
  shows "0 \<le> min_list xs"
proof -
  have "min_list xs = Min (set xs)" using assms(1) by (rule min_list_Min)
  moreover have "Min (set xs) \<in> set xs" using assms(1) by (intro Min_in) auto
  ultimately show ?thesis using assms(2) by simp
qed

lemma other_label_exists:
  assumes "1 < length (remdups labels)"
  shows "filter (\<lambda>l. l \<noteq> own) (remdups labels) \<noteq> []"
proof
  assume e: "filter (\<lambda>l. l \<noteq> own) (remdups labels) = []"
  then have "set (remdups labels) \<subseteq> {own}" by (auto simp: filter_empty_conv)
  then have "card (set (remdups labels)) \<le> card {own}" by (intro card_mono) auto
  moreover have "card (set (remdups labels)) = length (remdups labels)"
    using distinct_card [of "remdups labels"] by simp
  ultimately show False using assms by simp
qed

lemma silhouette_sample_bound:
  assumes "1 < length (remdups labels)"
  shows "- 1 \<le> silhouette_sample X labels i \<and> silhouette_sample X labels i \<le> 1"
proof -
  define own where "own = labels ! i"
  define a where "a = dist_sum X labels i own / real (label_freq labels own - 1)"
  define others where "others = filter (\<lambda>l. l \<noteq> own) (remdups labels)"
  define b where "b = min_list (map (\<lambda>l. dist_sum X labels i l / real (label_freq labels l)) others)"
  have a0: "0 \<le> a" unfolding a_def by (simp add: dist_sum_nonneg)
  have ne: "others \<noteq> []" unfolding others_def using assms by (rule other_label_exists)
  have b0: "0 \<le> b" unfolding b_def
    using ne by (intro min_list_nonneg) (auto simp: dist_sum_nonneg)
  have s: "silhouette_sample X labels i =
    (if label_freq labels own = 1 then 0 else if max a b = 0 then 0 else (b - a) / max a b)"
    by (simp add: silhouette_sample_def Let_def own_def a_def b_def others_def)
  show ?thesis unfolding s using ratio_bound [OF a0 b0] by auto
qed

lemma mean_bound:
  fixes f :: "nat \<Rightarrow> real"
  assumes "\<And>i. - 1 \<le> f i \<and> f i \<le> 1" "0 < length js"
  shows "- 1 \<le> sum_list (map f js) / real (length js) \<and> sum_list (map f js) / real (length js) \<le> 1"
proof -
  have "- real (length js) \<le> sum_list (map f js) \<and> sum_list (map f js) \<le> real (length js)"
  proof (induction js)
    case Nil
    then show ?case by simp
  next
    case (Cons j js)
    then show ?case using assms(1) [of j] by simp
  qed
  then show ?thesis using assms(2) by (simp add: field_simps)
qed

lemma silhouette_score_bound:
  assumes "silhouette_score X labels = Inr s"
  shows "- 1 \<le> s \<and> s \<le> 1"
proof -
  from assms have ok: "1 < length (remdups labels)" "length (remdups labels) < length X"
    and s: "s = sum_list (map (silhouette_sample X labels) [0..<length X]) / real (length X)"
    by (auto simp: silhouette_score_def Let_def split: if_splits)
  have "0 < length X" using ok by linarith
  then have "0 < length [0..<length X]" by simp
  from mean_bound [of "silhouette_sample X labels" "[0..<length X]", OF _ this]
    silhouette_sample_bound [OF ok(1)]
  show ?thesis unfolding s by simp
qed

lemma silhouette_score_ok:
  assumes "sweep_ok assign X k"
  shows "\<exists>s. kmeans_labels assign k X = Inr (map (assign k X) [0..<length X])
    \<and> silhouette_score X (map (assign k X) [0..<length X]) = Inr s"
  using assms by (simp add: sweep_ok_def kmeans_labels_def silhouette_score_def Let_def)

lemma step_returns_ok:
  assumes "kmeans_labels assign k X = Inr labels" "silhouette_score X labels = Inr s"
  shows "sweep_ok assign X k \<and> labels = map (assign k X) [0..<length X]"
  using assms
  by (auto simp: sweep_ok_def kmeans_labels_def silhouette_score_def Let_def split: if_splits)

lemma sweep_loop_returns:
  "sweep_loop assign X ks acc = Inr scores \<Longrightarrow>
    \<exists>new. scores = acc @ new \<and> length new = length ks
      \<and> list_all (sweep_ok assign X) ks
      \<and> list_all2 (\<lambda>k s. silhouette_score X (map (assign k X) [0..<length X]) = Inr s) ks new"
proof (induction ks arbitrary: acc)
  case Nil
  then show ?case by simp
next
  case (Cons k ks)
  from Cons.prems obtain labels s where
    l: "kmeans_labels assign k X = Inr labels" and
    s: "silhouette_score X labels = Inr s" and
    r: "sweep_loop assign X ks (acc @ [s]) = Inr scores"
    by (auto split: sum.splits)
  from step_returns_ok [OF l s] have ok: "sweep_ok assign X k"
    and lab: "labels = map (assign k X) [0..<length X]" by simp_all
  from Cons.IH [OF r] obtain new where
    n: "scores = (acc @ [s]) @ new" "length new = length ks" "list_all (sweep_ok assign X) ks"
      "list_all2 (\<lambda>k s. silhouette_score X (map (assign k X) [0..<length X]) = Inr s) ks new"
    by blast
  show ?case
  proof (intro exI conjI)
    show "scores = acc @ (s # new)" using n(1) by simp
    show "length (s # new) = length (k # ks)" using n(2) by simp
    show "list_all (sweep_ok assign X) (k # ks)" using ok n(3) by simp
    show "list_all2 (\<lambda>k s. silhouette_score X (map (assign k X) [0..<length X]) = Inr s) (k # ks) (s # new)"
      using n(4) s lab by simp
  qed
qed

lemma sweep_loop_total:
  "list_all (sweep_ok assign X) ks \<Longrightarrow> \<exists>scores. sweep_loop assign X ks acc = Inr scores"
proof (induction ks arbitrary: acc)
  case Nil
  then show ?case by simp
next
  case (Cons k ks)
  then have "sweep_ok assign X k" and rest: "list_all (sweep_ok assign X) ks" by simp_all
  from silhouette_score_ok [OF this(1)] obtain s where
    "kmeans_labels assign k X = Inr (map (assign k X) [0..<length X])"
    "silhouette_score X (map (assign k X) [0..<length X]) = Inr s" by blast
  then show ?case using Cons.IH [OF rest, of "acc @ [s]"] by simp
qed

lemma sweep_loop_raises:
  "\<not> list_all (sweep_ok assign X) ks \<Longrightarrow> \<exists>e. sweep_loop assign X ks acc = Inl e"
  using sweep_loop_returns [of assign X ks acc]
  by (cases "sweep_loop assign X ks acc") auto

lemma range_2_11: "[2..<11] = [2, 3, 4, 5, 6, 7, 8, 9, 10::nat]"
  by (simp add: upt_rec)

text \<open>
  C10, as the specification states it, fails for a small cohort: with two samples the
  labels of the two clusters are as many as the samples and \<^verbatim>\<open>silhouette_score\<close>
  raises at \<open>k = 2\<close>; with one sample \<^verbatim>\<open>KMeans.fit\<close> raises. No list of scores
  is produced.
\<close>

theorem silhouette_sweep_counterexample:
  "silhouette_scores assign_mod [[0], [1]] = Inl (ValueError ''Number of labels is invalid'')
   \<and> silhouette_scores assign_mod [[0]] = Inl (ValueError ''n_samples should be >= n_clusters'')"
  by (simp add: silhouette_scores_def range_2_11 kmeans_labels_def silhouette_score_def assign_mod_def)

text \<open>
  C10, amended. The sweep runs the cluster counts 2 to 10 in ascending order. When every
  one of them is at most the number of samples and gets between 2 and the number of
  samples minus 1 distinct labels, the sweep returns a list of scores, and otherwise it
  raises. A returned list has exactly 9 scores, the \<open>j\<close>-th is the silhouette score of
  the labels for \<open>k = j + 2\<close>, and every score lies between -1 and 1.
\<close>

theorem silhouette_sweep:
  "(list_all (sweep_ok assign X) [2..<11] \<longrightarrow> (\<exists>scores. silhouette_scores assign X = Inr scores))
   \<and> (\<not> list_all (sweep_ok assign X) [2..<11] \<longrightarrow> (\<exists>e. silhouette_scores assign X = Inl e))
   \<and> (silhouette_scores assign X = Inr scores \<longrightarrow>
        length scores = 9
        \<and> (\<forall>j < 9. silhouette_score X (map (assign (j + 2) X) [0..<length X]) = Inr (scores ! j))
        \<and> (\<forall>s \<in> set scores. - 1 \<le> s \<and> s \<le> 1))"
proof (intro conjI impI)
  assume "list_all (sweep_ok assign X) [2..<11]"
  then show "\<exists>scores. silhouette_scores assign X = Inr scores"
    unfolding silhouette_scores_def by (rule sweep_loop_total)
next
  assume "\<not> list_all (sweep_ok assign X) [2..<11]"
  then show "\<exists>e. silhouette_scores assign X = Inl e"
    unfolding silhouette_scores_def by (rule sweep_loop_raises)
next
  assume r: "silhouette_scores assign X = Inr scores"
  from sweep_loop_returns [OF r [unfolded silhouette_scores_def]]
  have len: "length scores = length [2..<11]"
    and each: "list_all2 (\<lambda>k s. silhouette_score X (map (assign k X) [0..<length X]) = Inr s)
      [2..<11] scores"
    by auto
  show "length scores = 9" using len by simp
  show "\<forall>j < 9. silhouette_score X (map (assign (j + 2) X) [0..<length X]) = Inr (scores ! j)"
  proof (intro allI impI)
    fix j :: nat assume j: "j < 9"
    then have jl: "j < length [2..<11]" by simp
    have "[2..<11] ! j = j + 2" using nth_upt [of 2 j 11] j by simp
    with list_all2_nthD [OF each jl]
    show "silhouette_score X (map (assign (j + 2) X) [0..<length X]) = Inr (scores ! j)"
      by simp
  qed
  show "\<forall>s \<in> set scores. - 1 \<le> s \<and> s \<le> 1"
  proof
    fix s assume "s \<in> set scores"
    then obtain j where j: "j < length scores" "scores ! j = s" by (auto simp: in_set_conv_nth)
    then have "j < length [2..<11]" using len by simp
    from list_all2_nthD [OF each this] j(2)
    have "silhouette_score X (map (assign ([2..<11] ! j) X) [0..<length X]) = Inr s" by simp
    then show "- 1 \<le> s \<and> s \<le> 1" by (rule silhouette_score_bound)
  qed
qed

lemma sweep_ok_line: "list_all (sweep_ok assign_mod X_line) [2..<11]"
  by code_simp

theorem silhouette_sweep_witness:
  "list_all (sweep_ok assign_mod X_line) [2..<11]
   \<and> (\<exists>scores. silhouette_scores assign_mod X_line = Inr scores \<and> length scores = 9)"
  using sweep_ok_line silhouette_sweep [of assign_mod X_line] by blast

end
